theory Spec2Isabelle
  imports Main "HOL-Library.Word" "HOL-Library.Finite_Map" "HOL-Library.Char_ord"
    "HOL-Library.List_Lexorder"
begin


section \<open>Go values shared by both components\<close>

text \<open>
  A Go \<open>error\<close> is modelled by the way it was built. \<open>errors.New(s)\<close> and
  \<open>fmt.Errorf\<close> without \<open>%w\<close> both give a plain string error (\<open>ErrorString\<close>);
  \<open>fmt.Errorf\<close> with one \<open>%w\<close> gives an error that carries its text and the wrapped
  error (\<open>WrapError\<close>; the wrapped error is an option because the source may pass a nil
  interface); \<open>ctx.Err()\<close> is one of the two values of package context; every error
  handed back by a library call (net/http, os, encoding/json) is opaque (\<open>LibError\<close>).
  \<open>Panic\<close> is not an error value: it stands for a run-time panic ending the call.
\<close>

datatype ctx_err = Canceled | DeadlineExceeded

datatype go_error =
    ErrorString string
  | WrapError string "go_error option"
  | ContextErr ctx_err
  | LibError string
  | Panic string

fun ErrorText :: "go_error \<Rightarrow> string" where
  "ErrorText (ErrorString s) = s"
| "ErrorText (WrapError s w) = s"
| "ErrorText (ContextErr Canceled) = ''context canceled''"
| "ErrorText (ContextErr DeadlineExceeded) = ''context deadline exceeded''"
| "ErrorText (LibError s) = s"
| "ErrorText (Panic s) = s"

text \<open>The verb \<open>%d\<close> of package fmt on a Go int: decimal digits, a minus sign first.\<close>

function fmt_nat :: "nat \<Rightarrow> string" where
  "fmt_nat n = (if n < 10 then [char_of (48 + n)]
                else fmt_nat (n div 10) @ [char_of (48 + n mod 10)])"
  by pat_completeness auto
termination
  by (relation "measure id") auto

declare fmt_nat.simps [simp del]

definition fmt_d :: "int \<Rightarrow> string" where
  "fmt_d i = (if i < 0 then CHR ''-'' # fmt_nat (nat (- i)) else fmt_nat (nat i))"

text \<open>\<open>fmt.Errorf(prefix + "%w", err)\<close>: the text of a nil operand is what fmt prints.\<close>

definition Errorf_w :: "string \<Rightarrow> go_error option \<Rightarrow> go_error" where
  "Errorf_w prefix err =
     WrapError (prefix @ (case err of None \<Rightarrow> ''%!w(<nil>)'' | Some e \<Rightarrow> ErrorText e)) err"

text \<open>
  \<open>time.Duration\<close> is an int64 count of nanoseconds. Durations are integers here and
  every product the source computes at run time goes through \<open>int64\<close>, the
  two's-complement wrap-around. Instants of \<open>time.Time\<close> are integers of nanoseconds.
\<close>

type_synonym Duration = int
type_synonym Time = int

definition int64 :: "int \<Rightarrow> int" where
  "int64 x = (x + 2 ^ 63) mod 2 ^ 64 - 2 ^ 63"

definition Second :: Duration where
  "Second = 1000000000"

text \<open>\<open>time.Until(t)\<close> is \<open>t.Sub(time.Now())\<close>, which saturates at the ends of int64.\<close>

definition time_Until :: "Time \<Rightarrow> Time \<Rightarrow> Duration" where
  "time_Until t now =
     (if t - now > 2 ^ 63 - 1 then 2 ^ 63 - 1
      else if t - now < - (2 ^ 63) then - (2 ^ 63)
      else t - now)"

section \<open>The retrying request executor (package api)\<close>

definition maxRetries :: nat where
  "maxRetries = 3"

definition initialBackoff :: Duration where
  "initialBackoff = 1 * Second"

definition maxBackoff :: Duration where
  "maxBackoff = 30 * Second"

text \<open>isRetryable: the switch over the status code.\<close>

definition isRetryable :: "int \<Rightarrow> bool" where
  "isRetryable statusCode =
     (if statusCode = 429 \<or> statusCode = 500 \<or> statusCode = 502
         \<or> statusCode = 503 \<or> statusCode = 504
      then True else False)"

text \<open>
  What doWithRetry reads of an \<open>*http.Response\<close>: the status code and
  \<open>resp.Header.Get("Retry-After")\<close>, which is the empty string when the header is
  absent.
\<close>

record Response =
  StatusCode :: int
  RetryAfter :: string

text \<open>
  \<open>bytes.Reader\<close>: the slice \<open>s\<close> and the read position \<open>i\<close>. \<open>bytes.NewReader\<close> starts at 0;
  reading to the end (what the transport does with a request body) returns the bytes
  from the position on and leaves the reader exhausted.
\<close>

type_synonym byte = "8 word"

record Reader =
  rd_s :: "byte list"
  rd_i :: nat

definition NewReader :: "byte list \<Rightarrow> Reader" where
  "NewReader b = \<lparr>rd_s = b, rd_i = 0\<rparr>"

definition ReadAll :: "Reader \<Rightarrow> byte list \<times> Reader" where
  "ReadAll r = (drop (rd_i r) (rd_s r), r\<lparr>rd_i := length (rd_s r)\<rparr>)"

record Request =
  Method :: string
  URL :: string
  Body :: "Reader option"
  ContentType :: string

text \<open>
  Everything outside the repository that doWithRetry calls is a parameter:
  \<^item> \<open>baseURL\<close>: the field \<open>c.baseURL\<close>;
  \<^item> \<open>Atoi\<close>, \<open>ParseTime\<close>: \<open>strconv.Atoi\<close> and \<open>http.ParseTime\<close>, \<open>None\<close> for an error;
  \<^item> \<open>Now k\<close>: the clock read by \<open>time.Until\<close> after attempt \<open>k\<close>;
  \<^item> \<open>NewRequest method url\<close>: the error of \<open>http.NewRequestWithContext\<close>, if any;
  \<^item> \<open>Do k req sent\<close>: \<open>c.httpClient.Do(req)\<close> on attempt \<open>k\<close>, where \<open>sent\<close> are the
    bytes the transport reads from the body reader of \<open>req\<close>;
  \<^item> \<open>Done k d\<close>: the \<open>select\<close> before attempt \<open>k\<close> with the timer set to \<open>d\<close>:
    \<open>Some e\<close> when \<open>ctx.Done()\<close> is received (and \<open>ctx.Err()\<close> is \<open>e\<close>), \<open>None\<close> when
    \<open>time.After(d)\<close> is.
\<close>

record Client =
  baseURL :: string
  Atoi :: "string \<Rightarrow> int option"
  ParseTime :: "string \<Rightarrow> Time option"
  Now :: "nat \<Rightarrow> Time"
  NewRequest :: "string \<Rightarrow> string \<Rightarrow> go_error option"
  Do :: "nat \<Rightarrow> Request \<Rightarrow> byte list \<Rightarrow> go_error + Response"
  Done :: "nat \<Rightarrow> Duration \<Rightarrow> ctx_err option"

text \<open>getRetryAfter, with \<open>now\<close> the instant \<open>time.Until\<close> reads.\<close>

definition getRetryAfter :: "Client \<Rightarrow> Time \<Rightarrow> Response \<Rightarrow> Duration" where
  "getRetryAfter c now resp =
     (let retryAfter = RetryAfter resp in
      if retryAfter = [] then 0
      else case Atoi c retryAfter of
             Some seconds \<Rightarrow> int64 (int64 seconds * Second)
           | None \<Rightarrow>
               (case ParseTime c retryAfter of
                  Some t \<Rightarrow> time_Until t now
                | None \<Rightarrow> 0))"

text \<open>
  What one call of doWithRetry does, in order: each backoff wait with the duration
  given to \<open>time.After\<close> and how the \<open>select\<close> ended, and each attempt with the bytes
  read from its body reader and what \<open>Do\<close> returned.
\<close>

datatype event =
    Backoff Duration "ctx_err option"
  | Attempt nat "byte list" "go_error + Response"

text \<open>
  One pass through the body of the \<open>for\<close> loop of doWithRetry, with the loop variables
  \<open>attempt\<close> and \<open>backoff\<close>: it either returns from doWithRetry (\<open>Return\<close>) or goes on
  to the next attempt with the new values of \<open>backoff\<close> and \<open>lastErr\<close> (\<open>Continue\<close>).
\<close>

datatype step =
    Return "go_error + Response"
  | Continue Duration go_error

definition doWithRetry_body ::
  "Client \<Rightarrow> string \<Rightarrow> string \<Rightarrow> byte list option \<Rightarrow> nat \<Rightarrow> Duration \<Rightarrow> step \<times> event list" where
  "doWithRetry_body c method path body attempt backoff =
     (case (if attempt > 0 then Done c attempt backoff else None) of
        Some e \<Rightarrow> (Return (Inl (ContextErr e)), [Backoff backoff (Some e)])
      | None \<Rightarrow>
         (let waited = (if attempt > 0 then [Backoff backoff None] else []);
              bodyReader = (case body of None \<Rightarrow> None | Some b \<Rightarrow> Some (NewReader b))
          in case NewRequest c method (baseURL c @ path) of
               Some err \<Rightarrow> (Return (Inl err), waited)
             | None \<Rightarrow>
                (let req = \<lparr>Method = method, URL = baseURL c @ path, Body = bodyReader,
                            ContentType = ''application/json''\<rparr>;
                     sent = (case Body req of None \<Rightarrow> [] | Some r \<Rightarrow> fst (ReadAll r));
                     res = Do c attempt req sent
                 in case res of
                      Inl err \<Rightarrow>
                        (Continue (min (int64 (backoff * 2)) maxBackoff) err,
                         waited @ [Attempt attempt sent res])
                    | Inr resp \<Rightarrow>
                        if \<not> isRetryable (StatusCode resp)
                        then (Return (Inr resp), waited @ [Attempt attempt sent res])
                        else
                          (let lastErr = ErrorString (''HTTP '' @ fmt_d (StatusCode resp));
                               retryAfter = getRetryAfter c (Now c attempt) resp
                           in if retryAfter > 0
                              then (Continue (min retryAfter maxBackoff) lastErr,
                                    waited @ [Attempt attempt sent res])
                              else (Continue (min (int64 (backoff * 2)) maxBackoff) lastErr,
                                    waited @ [Attempt attempt sent res])))))"

text \<open>
  The loop \<open>for attempt := 0; attempt <= maxRetries; attempt++\<close> from \<open>attempt\<close> on, and
  the return after it. The result is what doWithRetry returns and the events from here
  on.
\<close>

function doWithRetry_loop ::
  "Client \<Rightarrow> string \<Rightarrow> string \<Rightarrow> byte list option \<Rightarrow> nat \<Rightarrow> Duration \<Rightarrow> go_error option
     \<Rightarrow> (go_error + Response) \<times> event list" where
  "doWithRetry_loop c method path body attempt backoff lastErr =
     (if attempt \<le> maxRetries then
        (case doWithRetry_body c method path body attempt backoff of
           (Return r, evs) \<Rightarrow> (r, evs)
         | (Continue backoff' err, evs) \<Rightarrow>
             (case doWithRetry_loop c method path body (attempt + 1) backoff' (Some err) of
                (r, tr) \<Rightarrow> (r, evs @ tr)))
      else (Inl (Errorf_w (''request failed after '' @ fmt_d (int maxRetries) @ '' retries: '')
                   lastErr), []))"
  by pat_completeness auto
termination
  by (relation "measure (\<lambda>(c, method, path, body, attempt, backoff, lastErr).
                           maxRetries + 1 - attempt)") auto

declare doWithRetry_loop.simps [simp del]

definition doWithRetry ::
  "Client \<Rightarrow> string \<Rightarrow> string \<Rightarrow> byte list option \<Rightarrow> (go_error + Response) \<times> event list" where
  "doWithRetry c method path body =
     doWithRetry_loop c method path body 0 initialBackoff None"

subsection \<open>Reading a run of doWithRetry\<close>

text \<open>The body bytes of the attempts of a run, the attempts with what they returned, and
  the durations of its backoff waits, each in order.\<close>

fun sent_bodies :: "event list \<Rightarrow> byte list list" where
  "sent_bodies [] = []"
| "sent_bodies (Attempt k b r # tr) = b # sent_bodies tr"
| "sent_bodies (Backoff d e # tr) = sent_bodies tr"

fun results :: "event list \<Rightarrow> (nat \<times> (go_error + Response)) list" where
  "results [] = []"
| "results (Attempt k b r # tr) = (k, r) # results tr"
| "results (Backoff d e # tr) = results tr"

fun waits :: "event list \<Rightarrow> Duration list" where
  "waits [] = []"
| "waits (Attempt k b r # tr) = waits tr"
| "waits (Backoff d e # tr) = d # waits tr"

text \<open>The bytes of the \<open>body\<close> argument: a nil slice has none.\<close>

definition payload :: "byte list option \<Rightarrow> byte list" where
  "payload body = (case body of None \<Rightarrow> [] | Some b \<Rightarrow> b)"

text \<open>Every attempt of the run got a response with a status code that isRetryable accepts.\<close>

fun all_transient :: "event list \<Rightarrow> bool" where
  "all_transient [] = True"
| "all_transient (Attempt k b (Inr resp) # tr) = (isRetryable (StatusCode resp) \<and> all_transient tr)"
| "all_transient (Attempt k b (Inl err) # tr) = False"
| "all_transient (Backoff d e # tr) = all_transient tr"

text \<open>No backoff wait of the run ended on \<open>ctx.Done()\<close>.\<close>

fun uninterrupted :: "event list \<Rightarrow> bool" where
  "uninterrupted [] = True"
| "uninterrupted (Attempt k b r # tr) = uninterrupted tr"
| "uninterrupted (Backoff d e # tr) = (e = None \<and> uninterrupted tr)"

text \<open>
  The duration a Retry-After header stands for, read off the header as the
  specification words it: for integer seconds \<open>n\<close> it is \<open>n\<close> seconds, for an HTTP date it
  is the time from \<open>now\<close> until that date, both as exact integers of nanoseconds;
  \<open>None\<close> when the header is absent or is neither of the two.
\<close>

definition spec_retry_after :: "Client \<Rightarrow> Time \<Rightarrow> Response \<Rightarrow> int option" where
  "spec_retry_after c now resp =
     (if RetryAfter resp = [] then None
      else case Atoi c (RetryAfter resp) of
             Some n \<Rightarrow> Some (n * Second)
           | None \<Rightarrow> map_option (\<lambda>t. t - now) (ParseTime c (RetryAfter resp)))"

text \<open>
  The wait the specification prescribes after an attempt, written from its words: with
  \<open>prev\<close> the previous backoff, a response whose Retry-After header parses to a
  positive duration \<open>d\<close> gives \<open>min d maxBackoff\<close>; any other response and every network
  error give the previous backoff doubled, capped at 30 s. \<open>spec_waits\<close> is the sequence
  of waits this gives for a sequence of attempts, starting from the backoff \<open>prev\<close>.
\<close>

definition spec_wait :: "Client \<Rightarrow> Duration \<Rightarrow> nat \<times> (go_error + Response) \<Rightarrow> Duration" where
  "spec_wait c prev a =
     (case snd a of
        Inr resp \<Rightarrow>
          (case spec_retry_after c (Now c (fst a)) resp of
             Some d \<Rightarrow> if 0 < d then min d (30 * Second) else min (2 * prev) (30 * Second)
           | None \<Rightarrow> min (2 * prev) (30 * Second))
      | Inl err \<Rightarrow> min (2 * prev) (30 * Second))"

fun spec_waits :: "Client \<Rightarrow> Duration \<Rightarrow> (nat \<times> (go_error + Response)) list \<Rightarrow> Duration list" where
  "spec_waits c prev [] = []"
| "spec_waits c prev (a # as) = spec_wait c prev a # spec_waits c (spec_wait c prev a) as"

text \<open>
  The seconds of the Retry-After header of a response, taken as nanoseconds, lie within
  int64 (any header that is not integer seconds does); and every response of a run
  does so.
\<close>

definition fits :: "Client \<Rightarrow> Response \<Rightarrow> bool" where
  "fits c resp =
     (case Atoi c (RetryAfter resp) of
        None \<Rightarrow> True
      | Some n \<Rightarrow> - (2 ^ 63) \<le> n * Second \<and> n * Second < 2 ^ 63)"

fun all_fit :: "Client \<Rightarrow> event list \<Rightarrow> bool" where
  "all_fit c [] = True"
| "all_fit c (Attempt k b (Inr resp) # tr) = (fits c resp \<and> all_fit c tr)"
| "all_fit c (Attempt k b (Inl err) # tr) = all_fit c tr"
| "all_fit c (Backoff d e # tr) = all_fit c tr"

text \<open>
  The value of the loop variable \<open>backoff\<close> when the \<open>for\<close> loop of doWithRetry gets to
  the top of the pass for \<open>attempt\<close>; \<open>None\<close> when doWithRetry has returned before, or
  the loop has ended.
\<close>

fun backoff_at :: "Client \<Rightarrow> string \<Rightarrow> string \<Rightarrow> byte list option \<Rightarrow> nat \<Rightarrow> Duration option" where
  "backoff_at c meth path body 0 = Some initialBackoff"
| "backoff_at c meth path body (Suc attempt) =
     (case backoff_at c meth path body attempt of
        None \<Rightarrow> None
      | Some backoff \<Rightarrow>
          if attempt \<le> maxRetries then
            (case fst (doWithRetry_body c meth path body attempt backoff) of
               Continue backoff' err \<Rightarrow> Some backoff'
             | Return r \<Rightarrow> None)
          else None)"

subsection \<open>A scripted client\<close>

text \<open>
  A stand-in for \<open>strconv.Atoi\<close> on the strings of decimal digits that give a number
  within the range of a 64-bit \<open>int\<close> (it rejects every other string), and a client
  whose transport answers attempt \<open>k\<close> with \<open>outs k\<close> and whose context is done in the
  wait before attempt \<open>k\<close> when \<open>dones k\<close> says so.
\<close>

fun decimal_acc :: "string \<Rightarrow> int \<Rightarrow> int option" where
  "decimal_acc [] n = Some n"
| "decimal_acc (ch # cs) n =
     (if 48 \<le> (of_char ch :: int) \<and> (of_char ch :: int) \<le> 57
      then decimal_acc cs (n * 10 + (of_char ch - 48))
      else None)"

definition decimal :: "string \<Rightarrow> int option" where
  "decimal str =
     (if str = [] then None
      else case decimal_acc str 0 of
             None \<Rightarrow> None
           | Some n \<Rightarrow> if n < 2 ^ 63 then Some n else None)"

definition scripted :: "(nat \<Rightarrow> go_error + Response) \<Rightarrow> (nat \<Rightarrow> ctx_err option) \<Rightarrow> Client" where
  "scripted outs dones =
     \<lparr>baseURL = ''https://api.example.test'', Atoi = decimal, ParseTime = (\<lambda>v. None),
      Now = (\<lambda>k. 0), NewRequest = (\<lambda>method url. None),
      Do = (\<lambda>k req sent. outs k), Done = (\<lambda>k d. dones k)\<rparr>"

definition with_status :: "int \<Rightarrow> go_error + Response" where
  "with_status code = Inr \<lparr>StatusCode = code, RetryAfter = []\<rparr>"

definition with_retry_after :: "int \<Rightarrow> string \<Rightarrow> go_error + Response" where
  "with_retry_after code v = Inr \<lparr>StatusCode = code, RetryAfter = v\<rparr>"

text \<open>Scripted clients used as concrete inputs below.\<close>

definition flaky_client :: Client where
  "flaky_client =
     scripted (\<lambda>k. if k = 0 then with_status 503
                   else if k = 1 then with_status 502
                   else with_status 200)
              (\<lambda>k. None)"

definition unavailable_client :: Client where
  "unavailable_client = scripted (\<lambda>k. with_status 503) (\<lambda>k. None)"

definition cancelled_client :: Client where
  "cancelled_client =
     scripted (\<lambda>k. with_status 503) (\<lambda>k. if k = 1 then Some Canceled else None)"

definition notfound_client :: Client where
  "notfound_client = scripted (\<lambda>k. with_status 404) (\<lambda>k. None)"

definition throttled_client :: Client where
  "throttled_client =
     scripted (\<lambda>k. if k = 0 then with_retry_after 429 ''5''
                   else if k = 1 then Inl (LibError ''connection refused'')
                   else if k = 2 then with_retry_after 503 ''120''
                   else with_status 200)
              (\<lambda>k. None)"

definition deadline_client :: Client where
  "deadline_client =
     scripted (\<lambda>k. Inl (LibError ''connection refused''))
              (\<lambda>k. if k = 2 then Some DeadlineExceeded else None)"

text \<open>
  Two servers that ask for a very long pause, in whole seconds, and one that gives an
  HTTP date seven seconds after the instant the client reads its clock (instants count
  from the Unix epoch).
\<close>

definition overflowing_client :: Client where
  "overflowing_client =
     scripted (\<lambda>k. if k = 0 then with_retry_after 429 ''9223372037'' else with_status 200)
              (\<lambda>k. None)"

definition wrapping_client :: Client where
  "wrapping_client =
     scripted (\<lambda>k. if k = 0 then with_retry_after 429 ''18446744074'' else with_status 200)
              (\<lambda>k. None)"

definition dated_client :: Client where
  "dated_client =
     (scripted (\<lambda>k. if k = 0 then with_retry_after 503 ''Wed, 21 Oct 2015 07:28:00 GMT''
                    else if k = 1 then with_retry_after 503 ''Wed, 21 Oct 2015 07:20:00 GMT''
                    else with_status 200)
               (\<lambda>k. None))
       \<lparr>ParseTime := (\<lambda>v. if v = ''Wed, 21 Oct 2015 07:28:00 GMT'' then Some (1445412480 * Second)
                          else if v = ''Wed, 21 Oct 2015 07:20:00 GMT'' then Some (1445412000 * Second)
                          else None),
        Now := (\<lambda>k. (1445412473 + 8 * int k) * Second)\<rparr>"


section \<open>The credential store (package auth, store.go)\<close>

text \<open>
  \<open>credentialStore\<close> is the struct of the source. The package variable \<open>store\<close> is a
  pointer to one, nil until loadStore has run; loadStore is its only writer and never
  leaves the \<open>Profiles\<close> map nil, so the map of a store is a finite map here.
\<close>

record credentialStore =
  ActiveProfile :: string
  Profiles :: "(string, string) fmap"

text \<open>
  The content of a file as \<open>json.Unmarshal\<close> into a credentialStore sees it: text it
  rejects, or the decoded \<open>active_profile\<close> (empty when absent) and \<open>profiles\<close>
  (\<open>None\<close> when absent or null). \<open>encode\<close> is the content \<open>json.MarshalIndent(store)\<close>
  writes.
\<close>

datatype file_data =
    Rejected go_error
  | Json string "(string, string) fmap option"

definition encode :: "credentialStore option \<Rightarrow> file_data" where
  "encode p = (case p of None \<Rightarrow> Json [] None
               | Some st \<Rightarrow> Json (ActiveProfile st) (Some (Profiles st)))"

text \<open>
  What package auth asks of the Go library and the operating system, as parameters:
  \<open>os.Getenv\<close>, \<open>os.UserHomeDir\<close>, \<open>filepath.Join\<close>, the verb \<open>%q\<close> of fmt, and
  the failures of \<open>os.ReadFile\<close> (other than the file being absent), \<open>os.MkdirAll\<close>,
  \<open>json.MarshalIndent\<close> and \<open>os.WriteFile\<close>.
\<close>

record Sys =
  Getenv :: "string \<Rightarrow> string"
  UserHomeDir :: "go_error + string"
  Join :: "string list \<Rightarrow> string"
  Quote :: "string \<Rightarrow> string"
  ReadFileErr :: "string \<Rightarrow> go_error option"
  MkdirAll :: "string \<Rightarrow> go_error option"
  MarshalIndentErr :: "go_error option"
  WriteFile :: "string \<Rightarrow> go_error option"

text \<open>The state: the package variable \<open>store\<close> and the files on disk, by path.\<close>

record auth =
  store :: "credentialStore option"
  files :: "string \<rightharpoonup> file_data"

definition credentialsFile :: string where
  "credentialsFile = ''credentials.json''"

definition configDir :: "Sys \<Rightarrow> go_error + string" where
  "configDir sys =
     (case UserHomeDir sys of
        Inl err \<Rightarrow> Inl (Errorf_w ''failed to get home directory: '' (Some err))
      | Inr home \<Rightarrow> Inr (Join sys [home, ''.config'', ''porteden'']))"

definition loadStore :: "Sys \<Rightarrow> auth \<Rightarrow> go_error option \<times> auth" where
  "loadStore sys a =
     (case configDir sys of
        Inl err \<Rightarrow> (Some err, a)
      | Inr dir \<Rightarrow>
         (let path = Join sys [dir, credentialsFile] in
          case ReadFileErr sys path of
            Some err \<Rightarrow> (Some (Errorf_w ''failed to read credentials file: '' (Some err)), a)
          | None \<Rightarrow>
             (case files a path of
                None \<Rightarrow>
                  (None, a\<lparr>store := Some \<lparr>ActiveProfile = ''default'', Profiles = fmempty\<rparr>\<rparr>)
              | Some (Rejected err) \<Rightarrow>
                  (Some (Errorf_w (''failed to parse credentials file '' @ path @ '': '')
                           (Some err)), a)
              | Some (Json ap ps) \<Rightarrow>
                  (None, a\<lparr>store := Some
                     \<lparr>ActiveProfile = (if ap = [] then ''default'' else ap),
                      Profiles = (case ps of None \<Rightarrow> fmempty | Some m \<Rightarrow> m)\<rparr>\<rparr>))))"

definition InitStore :: "Sys \<Rightarrow> auth \<Rightarrow> go_error option \<times> auth" where
  "InitStore sys a = (if store a \<noteq> None then (None, a) else loadStore sys a)"

definition saveStore :: "Sys \<Rightarrow> auth \<Rightarrow> go_error option \<times> auth" where
  "saveStore sys a =
     (case configDir sys of
        Inl err \<Rightarrow> (Some err, a)
      | Inr dir \<Rightarrow>
         (case MkdirAll sys dir of
            Some err \<Rightarrow> (Some (Errorf_w ''failed to create config directory: '' (Some err)), a)
          | None \<Rightarrow>
             (case MarshalIndentErr sys of
                Some err \<Rightarrow> (Some (Errorf_w ''failed to encode credentials: '' (Some err)), a)
              | None \<Rightarrow>
                 (let path = Join sys [dir, credentialsFile] in
                  case WriteFile sys path of
                    Some err \<Rightarrow>
                      (Some (Errorf_w ''failed to write credentials file: '' (Some err)), a)
                  | None \<Rightarrow> (None, a\<lparr>files := (files a)(path \<mapsto> encode (store a))\<rparr>)))))"

definition ensureStore :: "auth \<Rightarrow> go_error option" where
  "ensureStore a =
     (if store a = None
      then Some (ErrorString
                  ''credential store not initialized - run 'porteden auth login' first'')
      else None)"

text \<open>
  The operations on the store. Where the source dereferences \<open>store\<close>, a nil pointer
  would panic; every such place lies behind ensureStore, which has returned by then.
\<close>

definition nil_dereference :: go_error where
  "nil_dereference = Panic ''invalid memory address or nil pointer dereference''"

definition StoreAPIKey :: "Sys \<Rightarrow> string \<Rightarrow> string \<Rightarrow> auth \<Rightarrow> go_error option \<times> auth" where
  "StoreAPIKey sys apiKey profile a =
     (case ensureStore a of
        Some err \<Rightarrow> (Some err, a)
      | None \<Rightarrow>
         (let profile = (if profile = [] then ''default'' else profile) in
          case store a of
            None \<Rightarrow> (Some nil_dereference, a)
          | Some st \<Rightarrow>
              saveStore sys (a\<lparr>store := Some (st\<lparr>Profiles := fmupd profile apiKey (Profiles st)\<rparr>)\<rparr>)))"

definition GetActiveProfile :: "auth \<Rightarrow> string" where
  "GetActiveProfile a =
     (case store a of None \<Rightarrow> ''default'' | Some st \<Rightarrow> ActiveProfile st)"

definition GetStoredAPIKey :: "Sys \<Rightarrow> string \<Rightarrow> auth \<Rightarrow> go_error + string" where
  "GetStoredAPIKey sys profile a =
     (case ensureStore a of
        Some err \<Rightarrow> Inl err
      | None \<Rightarrow>
         (let profile = (if profile = [] then GetActiveProfile a else profile) in
          case store a of
            None \<Rightarrow> Inl nil_dereference
          | Some st \<Rightarrow>
             (case fmlookup (Profiles st) profile of
                None \<Rightarrow> Inl (ErrorString (''no API key found for profile '' @ Quote sys profile))
              | Some key \<Rightarrow>
                  if key = []
                  then Inl (ErrorString (''no API key found for profile '' @ Quote sys profile))
                  else Inr key)))"

definition GetAPIKey :: "Sys \<Rightarrow> string \<Rightarrow> auth \<Rightarrow> go_error + string" where
  "GetAPIKey sys profile a =
     (let envKey = Getenv sys ''PE_API_KEY'' in
      if envKey \<noteq> [] then Inr envKey else GetStoredAPIKey sys profile a)"

definition DeleteAPIKey :: "Sys \<Rightarrow> string \<Rightarrow> auth \<Rightarrow> go_error option \<times> auth" where
  "DeleteAPIKey sys profile a =
     (case ensureStore a of
        Some err \<Rightarrow> (Some err, a)
      | None \<Rightarrow>
         (let profile = (if profile = [] then ''default'' else profile) in
          case store a of
            None \<Rightarrow> (Some nil_dereference, a)
          | Some st \<Rightarrow>
              saveStore sys (a\<lparr>store := Some (st\<lparr>Profiles := fmdrop profile (Profiles st)\<rparr>)\<rparr>)))"

definition SetActiveProfile :: "Sys \<Rightarrow> string \<Rightarrow> auth \<Rightarrow> go_error option \<times> auth" where
  "SetActiveProfile sys profile a =
     (case ensureStore a of
        Some err \<Rightarrow> (Some err, a)
      | None \<Rightarrow>
         (case store a of
            None \<Rightarrow> (Some nil_dereference, a)
          | Some st \<Rightarrow> saveStore sys (a\<lparr>store := Some (st\<lparr>ActiveProfile := profile\<rparr>)\<rparr>)))"

definition ListProfiles :: "auth \<Rightarrow> go_error + string list \<times> string" where
  "ListProfiles a =
     (case ensureStore a of
        Some err \<Rightarrow> Inl err
      | None \<Rightarrow>
         (case store a of
            None \<Rightarrow> Inl nil_dereference
          | Some st \<Rightarrow> Inr (sorted_list_of_fset (fmdom (Profiles st)), ActiveProfile st)))"

text \<open>
  The error, if any, that each operation on the store reports to its caller. An
  operation whose Go result type has no error (GetActiveProfile) reports none.
\<close>

datatype store_op =
    OpStoreAPIKey string string
  | OpGetStoredAPIKey string
  | OpGetAPIKey string
  | OpDeleteAPIKey string
  | OpSetActiveProfile string
  | OpListProfiles
  | OpGetActiveProfile

fun reported :: "Sys \<Rightarrow> store_op \<Rightarrow> auth \<Rightarrow> go_error option" where
  "reported sys (OpStoreAPIKey apiKey profile) a = fst (StoreAPIKey sys apiKey profile a)"
| "reported sys (OpGetStoredAPIKey profile) a =
     (case GetStoredAPIKey sys profile a of Inl err \<Rightarrow> Some err | Inr key \<Rightarrow> None)"
| "reported sys (OpGetAPIKey profile) a =
     (case GetAPIKey sys profile a of Inl err \<Rightarrow> Some err | Inr key \<Rightarrow> None)"
| "reported sys (OpDeleteAPIKey profile) a = fst (DeleteAPIKey sys profile a)"
| "reported sys (OpSetActiveProfile profile) a = fst (SetActiveProfile sys profile a)"
| "reported sys OpListProfiles a =
     (case ListProfiles a of Inl err \<Rightarrow> Some err | Inr r \<Rightarrow> None)"
| "reported sys OpGetActiveProfile a = None"

text \<open>The state of the program before InitStore: the variable is nil.\<close>

definition uninitialized :: "(string \<rightharpoonup> file_data) \<Rightarrow> auth" where
  "uninitialized fs = \<lparr>store = None, files = fs\<rparr>"


section \<open>The browser login flow (package auth)\<close>

record LoginResponse =
  SessionToken :: string
  PollSecret :: string
  LoginURL :: string
  ExpiresAt :: Time
  Message :: string

record PollResponse =
  Status :: string
  ApiKey :: "string option"
  Error :: "string option"

text \<open>
  One HTTP exchange as the flow goes through it: \<open>Do\<close>/\<open>Get\<close> fails, or gives a response
  with a status code whose body \<open>io.ReadAll\<close> fails to read, or reads into bytes that
  \<open>json.Unmarshal\<close> rejects (\<open>Malformed\<close>) or decodes (\<open>Decoded\<close>).
\<close>

datatype 'r body =
    ReadError go_error
  | Malformed go_error
  | Decoded 'r

datatype 'r exchange =
    Failed go_error
  | Got int "'r body"

text \<open>
  What a \<open>select\<close> of pollForCompletion received from: \<open>ctx.Done()\<close>, the overall
  timer, or its third channel (\<open>initialDelay.C\<close> in the first select, \<open>ticker.C\<close> in
  the loop, there together with the exchange of the \<open>Get\<close> that follows the tick).
\<close>

datatype 'a selected =
    CtxDone
  | TimerC
  | Other 'a

text \<open>
  The world of one call of Login, as parameters: the failures of \<open>json.Marshal\<close> and
  \<open>http.NewRequestWithContext\<close>; the exchange that starts the session, for the request
  body given; \<open>url.PathEscape\<close> and \<open>url.QueryEscape\<close>; the clock \<open>time.Until\<close> reads;
  what the first select receives from, with the timer set to the first duration and
  the initial delay to the second; and what the selects of the loop receive from, in
  order, polling the URL given, with the timer, the initial delay and the ticker set
  to the three durations. The list of loop selects is finite: where it ends the flow
  is still waiting.
\<close>

record Session =
  MarshalErr :: "go_error option"
  NewRequestErr :: "go_error option"
  Initiate :: "(string, string) fmap \<Rightarrow> LoginResponse exchange"
  PathEscape :: "string \<Rightarrow> string"
  QueryEscape :: "string \<Rightarrow> string"
  Clock :: Time
  First :: "Duration \<Rightarrow> Duration \<Rightarrow> unit selected"
  Wakes :: "string \<Rightarrow> Duration \<Rightarrow> Duration \<Rightarrow> Duration
              \<Rightarrow> PollResponse exchange selected list"

definition auth_baseURL :: string where
  "auth_baseURL = ''https://cliv1b.porteden.com''"

text \<open>
  The case \<open><-ticker.C\<close> of the loop of pollForCompletion, on the exchange of its \<open>Get\<close>:
  \<open>None\<close> where the source says \<open>continue\<close> or leaves the switch without a match,
  \<open>Some\<close> of what it returns otherwise.
\<close>

definition on_tick :: "PollResponse exchange \<Rightarrow> (go_error + string) option" where
  "on_tick x =
     (case x of
        Failed err \<Rightarrow> None
      | Got statusCode b \<Rightarrow>
         (case b of
            ReadError readErr \<Rightarrow> None
          | _ \<Rightarrow>
             if statusCode \<noteq> 200 then
               (if statusCode = 404
                then Some (Inl (ErrorString ''login session expired. Please try again''))
                else if statusCode = 429
                then Some (Inl (ErrorString
                       ''too many login attempts. Please wait a minute and try again''))
                else if statusCode \<ge> 500 then None
                else if statusCode = 400 then None
                else None)
             else
               (case b of
                  Decoded pollResp \<Rightarrow>
                    if Status pollResp = ''completed'' then
                      (case ApiKey pollResp of
                         Some k \<Rightarrow> Some (Inr k)
                       | None \<Rightarrow> Some (Inl (ErrorString ''no API key in response'')))
                    else if Status pollResp = ''expired'' then
                      Some (Inl (ErrorString ''login session expired''))
                    else if Status pollResp = ''failed'' then
                      Some (Inl (ErrorString
                        (case Error pollResp of
                           Some msg \<Rightarrow> msg
                         | None \<Rightarrow> ''authentication failed'')))
                    else if Status pollResp = ''invalid_secret'' then
                      Some (Inl (ErrorString ''invalid poll secret - session may be compromised''))
                    else None
                | _ \<Rightarrow> None)))"

text \<open>
  The \<open>for\<close> loop of pollForCompletion over what its selects receive: the result
  (\<open>None\<close> while the flow is still waiting when the list ends) and the number of polls
  (calls of \<open>httpClient.Get\<close>) made.
\<close>

fun poll_loop ::
  "PollResponse exchange selected list \<Rightarrow> (go_error + string) option \<times> nat" where
  "poll_loop [] = (None, 0)"
| "poll_loop (CtxDone # ws) = (Some (Inl (ErrorString ''login cancelled by user'')), 0)"
| "poll_loop (TimerC # ws) = (Some (Inl (ErrorString ''login timed out'')), 0)"
| "poll_loop (Other x # ws) =
     (case on_tick x of
        Some r \<Rightarrow> (Some r, 1)
      | None \<Rightarrow> (case poll_loop ws of (r, n) \<Rightarrow> (r, Suc n)))"

text \<open>The poll URL and the duration the overall timer of pollForCompletion is set to.\<close>

definition pollURL :: "Session \<Rightarrow> string \<Rightarrow> string \<Rightarrow> string" where
  "pollURL w sessionToken pollSecret =
     auth_baseURL @ ''/api/auth/token/poll/'' @ PathEscape w sessionToken
       @ ''?secret='' @ QueryEscape w pollSecret"


definition poll_timeout :: "Time \<Rightarrow> Time \<Rightarrow> Duration" where
  "poll_timeout expiresAt now =
     (let timeout = time_Until expiresAt now
      in if timeout < 90 * Second then 90 * Second else timeout)"

definition pollForCompletion ::
  "Session \<Rightarrow> string \<Rightarrow> string \<Rightarrow> Time \<Rightarrow> (go_error + string) option \<times> nat" where
  "pollForCompletion w sessionToken pollSecret expiresAt =
     (let timeout = poll_timeout expiresAt (Clock w)
      in case First w timeout (10 * Second) of
           CtxDone \<Rightarrow> (Some (Inl (ErrorString ''login cancelled by user'')), 0)
         | TimerC \<Rightarrow> (Some (Inl (ErrorString ''login timed out'')), 0)
         | Other u \<Rightarrow>
             poll_loop (Wakes w (pollURL w sessionToken pollSecret) timeout (10 * Second)
                          (3 * Second)))"

text \<open>The request body Login sends to start a session.\<close>

definition reqBody :: "string \<Rightarrow> string \<Rightarrow> (string, string) fmap" where
  "reqBody operatorID keyTitle =
     (let m = fmempty;
          m = (if operatorID \<noteq> [] then fmupd ''operatorId'' operatorID m else m);
          m = (if keyTitle \<noteq> [] then fmupd ''keyTitle'' keyTitle m else m)
      in m)"

text \<open>
  Login: its result (\<open>None\<close> while still waiting), the number of polls made and the
  state it leaves. The progress callbacks and \<open>browser.OpenURL\<close>, whose result the
  source discards, have no part in any of the three.
\<close>

definition Login ::
  "Session \<Rightarrow> Sys \<Rightarrow> string \<Rightarrow> string \<Rightarrow> string \<Rightarrow> auth
     \<Rightarrow> (go_error + string) option \<times> nat \<times> auth" where
  "Login w sys profile operatorID keyTitle a =
     (let profile = (if profile = [] then ''default'' else profile)
      in case MarshalErr w of
           Some err \<Rightarrow> (Some (Inl (Errorf_w ''failed to encode request: '' (Some err))), 0, a)
         | None \<Rightarrow>
         (case NewRequestErr w of
            Some err \<Rightarrow> (Some (Inl (Errorf_w ''failed to create request: '' (Some err))), 0, a)
          | None \<Rightarrow>
          (case Initiate w (reqBody operatorID keyTitle) of
             Failed err \<Rightarrow>
               (Some (Inl (ErrorString
                  ''could not connect to PortEden. Please check your internet connection and try again'')),
                0, a)
           | Got statusCode b \<Rightarrow>
             (case b of
                ReadError err \<Rightarrow>
                  (Some (Inl (ErrorString ''could not read server response. Please try again'')),
                   0, a)
              | _ \<Rightarrow>
                if statusCode = 429 then
                  (Some (Inl (ErrorString
                     ''too many login attempts. Please wait a minute and try again'')), 0, a)
                else if statusCode \<noteq> 200 then
                  (Some (Inl (ErrorString
                     ''could not start login session. Please try again later'')), 0, a)
                else
                  (case b of
                     ReadError err \<Rightarrow>
                       (Some (Inl (ErrorString
                          ''could not read server response. Please try again'')), 0, a)
                   | Malformed err \<Rightarrow>
                       (Some (Inl (Errorf_w ''failed to decode response: '' (Some err))), 0, a)
                   | Decoded loginResp \<Rightarrow>
                      (case pollForCompletion w (SessionToken loginResp) (PollSecret loginResp)
                              (ExpiresAt loginResp) of
                         (None, n) \<Rightarrow> (None, n, a)
                       | (Some (Inl err), n) \<Rightarrow> (Some (Inl err), n, a)
                       | (Some (Inr apiKey), n) \<Rightarrow>
                          (case StoreAPIKey sys apiKey profile a of
                             (Some err, a') \<Rightarrow>
                               (Some (Inl (Errorf_w ''failed to store API key: '' (Some err))),
                                n, a')
                           | (None, a') \<Rightarrow> (Some (Inr apiKey), n, a'))))))))"

subsection \<open>Reading a run of the poll loop\<close>

text \<open>Every select of the list received a tick, and the poll after it left the flow
  polling (a pending or otherwise non-terminal exchange).\<close>

fun keeps_polling :: "PollResponse exchange selected list \<Rightarrow> bool" where
  "keeps_polling [] = True"
| "keeps_polling (Other x # ws) = (on_tick x = None \<and> keeps_polling ws)"
| "keeps_polling (CtxDone # ws) = False"
| "keeps_polling (TimerC # ws) = False"

text \<open>The path saveStore writes, for a home directory.\<close>

definition credentialsPath :: "Sys \<Rightarrow> string \<Rightarrow> string" where
  "credentialsPath sys home = Join sys [Join sys [home, ''.config'', ''porteden''], credentialsFile]"

subsection \<open>A scripted session\<close>

text \<open>
  A system where nothing fails, with \<open>filepath.Join\<close> on clean path elements; poll
  responses with status 200 and a decoded body; and a session that starts, gets
  through the initial delay and then sees the selects \<open>ws\<close>.
\<close>

fun join_slash :: "string list \<Rightarrow> string" where
  "join_slash [] = []"
| "join_slash [x] = x"
| "join_slash (x # y # ys) = x @ ''/'' @ join_slash (y # ys)"

definition plain_sys :: Sys where
  "plain_sys =
     \<lparr>Getenv = (\<lambda>name. []), UserHomeDir = Inr ''/home/u'', Join = join_slash,
      Quote = (\<lambda>v. [CHR 0x22] @ v @ [CHR 0x22]), ReadFileErr = (\<lambda>path. None),
      MkdirAll = (\<lambda>path. None), MarshalIndentErr = None, WriteFile = (\<lambda>path. None)\<rparr>"

definition poll_body :: "string \<Rightarrow> string option \<Rightarrow> string option \<Rightarrow> PollResponse exchange selected" where
  "poll_body st k e = Other (Got 200 (Decoded \<lparr>Status = st, ApiKey = k, Error = e\<rparr>))"

definition scripted_session :: "PollResponse exchange selected list \<Rightarrow> Session" where
  "scripted_session ws =
     \<lparr>MarshalErr = None, NewRequestErr = None,
      Initiate = (\<lambda>b. Got 200 (Decoded
         \<lparr>SessionToken = ''tok'', PollSecret = ''sec'',
          LoginURL = ''https://login.example.test/tok'', ExpiresAt = 300 * Second,
          Message = []\<rparr>)),
      PathEscape = (\<lambda>v. v), QueryEscape = (\<lambda>v. v), Clock = 0,
      First = (\<lambda>timeout delay. Other ()), Wakes = (\<lambda>url timeout delay period. ws)\<rparr>"

definition readonly_sys :: Sys where
  "readonly_sys = plain_sys\<lparr>WriteFile := (\<lambda>path. Some (LibError ''permission denied''))\<rparr>"

definition initialized :: auth where
  "initialized = \<lparr>store = Some \<lparr>ActiveProfile = ''default'', Profiles = fmempty\<rparr>,
                   files = Map.empty\<rparr>"

text \<open>Sessions and states used as concrete inputs below.\<close>

definition three_polls :: Session where
  "three_polls =
     scripted_session [poll_body ''pending'' None None, poll_body ''pending'' None None,
                       poll_body ''completed'' (Some ''pe_k'') None]"

definition truncated_404 :: Session where
  "truncated_404 =
     scripted_session [Other (Got 404 (ReadError (LibError ''unexpected EOF''))),
                       poll_body ''completed'' (Some ''pe_k'') None]"

definition gone_on_third :: Session where
  "gone_on_third =
     scripted_session [poll_body ''pending'' None None, Other (Failed (LibError ''timeout'')),
                       Other (Got 404 (Malformed (LibError ''invalid character''))),
                       poll_body ''completed'' (Some ''pe_k'') None]"

definition never_completed :: Session where
  "never_completed =
     scripted_session [poll_body ''pending'' None None, Other (Got 503 (Decoded
                          \<lparr>Status = [], ApiKey = None, Error = None\<rparr>)),
                       TimerC, poll_body ''completed'' (Some ''pe_k'') None]"

definition expired_at_once :: Session where
  "expired_at_once =
     (scripted_session [poll_body ''completed'' (Some ''pe_k'') None])
       \<lparr>First := (\<lambda>timeout delay. TimerC)\<rparr>"

definition keyless :: Session where
  "keyless =
     scripted_session [poll_body ''pending'' None None, poll_body ''completed'' None None,
                       poll_body ''completed'' (Some ''pe_k'') None]"

definition switched_to_work :: auth where
  "switched_to_work = \<lparr>store = Some \<lparr>ActiveProfile = ''work'', Profiles = fmempty\<rparr>,
                        files = Map.empty\<rparr>"

text \<open>
  Three sessions whose second poll ends the flow: the server rejects the poll secret;
  the login fails with the server's own text; the login fails with a text that is, word
  for word, the one the client uses for a rejected secret.
\<close>

definition secret_rejected :: Session where
  "secret_rejected =
     scripted_session [poll_body ''pending'' None None, poll_body ''invalid_secret'' None None,
                       poll_body ''completed'' (Some ''pe_k'') None]"

definition login_denied :: Session where
  "login_denied =
     scripted_session [poll_body ''pending'' None None,
                       poll_body ''failed'' None (Some ''denied''),
                       poll_body ''completed'' (Some ''pe_k'') None]"

definition failed_like_secret :: Session where
  "failed_like_secret =
     scripted_session [poll_body ''pending'' None None,
                       poll_body ''failed'' None
                         (Some ''invalid poll secret - session may be compromised''),
                       poll_body ''completed'' (Some ''pe_k'') None]"


section \<open>A session on a timeline\<close>

text \<open>
  The selects of pollForCompletion, computed from when things happen. A timeline says
  when pollForCompletion starts, when the context is done (if ever), how long each
  \<open>httpClient.Get\<close> takes and what it gives, and which channel a select picks when
  several are ready (Go picks one at random). The rules are those of the Go runtime:
  a select that finds no channel ready blocks until the first one is; a timer is ready
  from the instant it fires; a ticker fires every period from its creation on and
  its channel holds at most one tick, later ones being dropped while it is full; and
  the clock moves only while the flow waits in a select or in a Get.
\<close>

record timeline =
  started :: Time
  cancelled :: "Time option"
  answers :: "(Duration \<times> PollResponse exchange) list"
  choice :: "nat \<Rightarrow> unit selected list \<Rightarrow> unit selected"

text \<open>
  One select at the instant \<open>now\<close>, the three channels being ready from \<open>cancel\<close> (if
  ever), \<open>timer\<close> and \<open>third\<close> on: when it returns and what it received from.
\<close>

definition select_at ::
  "(unit selected list \<Rightarrow> unit selected) \<Rightarrow> Time \<Rightarrow> Time option \<Rightarrow> Time \<Rightarrow> Time
     \<Rightarrow> Time \<times> unit selected" where
  "select_at pick now cancel timer third =
     (let first = (case cancel of None \<Rightarrow> min timer third | Some c \<Rightarrow> min c (min timer third));
          wake = max now first;
          ready = (case cancel of None \<Rightarrow> [] | Some c \<Rightarrow> if c \<le> wake then [CtxDone] else [])
                    @ (if timer \<le> wake then [TimerC] else [])
                    @ (if third \<le> wake then [Other ()] else [])
      in (wake,
          if pick ready \<in> set ready then pick ready
          else if timer \<le> wake then TimerC
          else if third \<le> wake then Other ()
          else CtxDone))"

text \<open>The next instant a ticker has a tick to give, after the tick that was ready from
  \<open>tick\<close> on has been received at \<open>wake\<close>.\<close>

definition next_tick :: "Time \<Rightarrow> Duration \<Rightarrow> Time \<Rightarrow> Time" where
  "next_tick tick period wake = tick + period * ((wake - tick) div period + 1)"

text \<open>
  The selects of the loop from select number \<open>n\<close> on, at the instant \<open>now\<close>, with the
  next tick ready from \<open>tick\<close> on. Each comes with the instant it returned (for a tick,
  that is when the poll is sent) and the instant the flow is back from it (for a tick,
  when the response of the poll has arrived).
\<close>

record timed_select =
  what :: "PollResponse exchange selected"
  woke :: Time
  over :: Time

fun timed_loop ::
  "(nat \<Rightarrow> unit selected list \<Rightarrow> unit selected) \<Rightarrow> Time option \<Rightarrow> Time \<Rightarrow> Duration \<Rightarrow> nat
     \<Rightarrow> Time \<Rightarrow> Time \<Rightarrow> (Duration \<times> PollResponse exchange) list \<Rightarrow> timed_select list" where
  "timed_loop pick cancel timer period n now tick [] =
     (let (wake, ch) = select_at (pick n) now cancel timer tick
      in if ch = CtxDone then [\<lparr>what = CtxDone, woke = wake, over = wake\<rparr>]
         else if ch = TimerC then [\<lparr>what = TimerC, woke = wake, over = wake\<rparr>]
         else [])"
| "timed_loop pick cancel timer period n now tick ((d, x) # as) =
     (let (wake, ch) = select_at (pick n) now cancel timer tick
      in if ch = CtxDone then [\<lparr>what = CtxDone, woke = wake, over = wake\<rparr>]
         else if ch = TimerC then [\<lparr>what = TimerC, woke = wake, over = wake\<rparr>]
         else \<lparr>what = Other x, woke = wake, over = wake + d\<rparr>
                # timed_loop pick cancel timer period (Suc n) (wake + d)
                    (next_tick tick period wake) as)"

definition timed_selects ::
  "timeline \<Rightarrow> Duration \<Rightarrow> Duration \<Rightarrow> Duration \<Rightarrow> timed_select list" where
  "timed_selects tline timeout delay period =
     (let t1 = fst (select_at (choice tline 0) (started tline) (cancelled tline)
                      (started tline + timeout) (started tline + delay))
      in timed_loop (choice tline) (cancelled tline) (started tline + timeout) period 1 t1
           (t1 + period) (answers tline))"

definition timed_session :: "timeline \<Rightarrow> Session" where
  "timed_session tline =
     (scripted_session [])
       \<lparr>Clock := started tline,
        First := (\<lambda>timeout delay.
           snd (select_at (choice tline 0) (started tline) (cancelled tline)
                  (started tline + timeout) (started tline + delay))),
        Wakes := (\<lambda>url timeout delay period. map what (timed_selects tline timeout delay period))\<rparr>"

text \<open>Every Get of the list is answered in less than \<open>period\<close>, with a response that
  leaves the flow polling.\<close>

definition quick :: "Duration \<Rightarrow> (Duration \<times> PollResponse exchange) list \<Rightarrow> bool" where
  "quick period as = (\<forall>(d, x) \<in> set as. 0 \<le> d \<and> d < period \<and> on_tick x = None)"

text \<open>
  Two timelines with no cancellation, a session that the server lets expire after 60
  seconds, and a select that takes the timer whenever the timer is ready. On
  \<open>late_answer\<close> the server answers each poll after one second with pending, until the
  user signs in at the last moment: the 26th poll, sent at 88 s, is answered after
  three seconds with the key. On \<open>no_answer\<close> the server needs 29 seconds for each
  poll (the HTTP client gives up after 30) and only ever answers pending.
\<close>

definition pending :: "PollResponse exchange" where
  "pending = Got 200 (Decoded \<lparr>Status = ''pending'', ApiKey = None, Error = None\<rparr>)"

definition late_answer :: timeline where
  "late_answer =
     \<lparr>started = 0, cancelled = None,
      answers = replicate 25 (1 * Second, pending)
                  @ [(3 * Second, Got 200 (Decoded \<lparr>Status = ''completed'',
                                                  ApiKey = Some ''pe_k'', Error = None\<rparr>))],
      choice = (\<lambda>n ready. TimerC)\<rparr>"

definition no_answer :: timeline where
  "no_answer =
     \<lparr>started = 0, cancelled = None,
      answers = replicate 5 (29 * Second, pending),
      choice = (\<lambda>n ready. TimerC)\<rparr>"

text \<open>A server that answers every poll after one second with pending, forty times.\<close>

definition quick_pending :: timeline where
  "quick_pending =
     \<lparr>started = 0, cancelled = None,
      answers = replicate 40 (1 * Second, pending),
      choice = (\<lambda>n ready. Other ())\<rparr>"


section \<open>Properties of the retrying request executor\<close>

subsection \<open>Runs, piece by piece\<close>

lemma sent_bodies_append: "sent_bodies (xs @ ys) = sent_bodies xs @ sent_bodies ys"
  by (induction xs rule: sent_bodies.induct) auto

lemma results_append: "results (xs @ ys) = results xs @ results ys"
  by (induction xs rule: results.induct) auto

lemma waits_append: "waits (xs @ ys) = waits xs @ waits ys"
  by (induction xs rule: waits.induct) auto

lemma all_transient_append: "all_transient (xs @ ys) = (all_transient xs \<and> all_transient ys)"
  by (induction xs rule: all_transient.induct) auto

lemma uninterrupted_append: "uninterrupted (xs @ ys) = (uninterrupted xs \<and> uninterrupted ys)"
  by (induction xs rule: uninterrupted.induct) auto

lemma ReadAll_NewReader: "fst (ReadAll (NewReader b)) = b"
  by (simp add: ReadAll_def NewReader_def)

text \<open>A reader gives its bytes once: read to the end a second time, it gives none.\<close>

lemma ReadAll_again: "fst (ReadAll (snd (ReadAll r))) = []"
  by (simp add: ReadAll_def)

lemma same_replicate: "set xs \<subseteq> {x} \<Longrightarrow> xs = replicate (length xs) x"
  by (induction xs) auto

text \<open>The three ways through the loop head.\<close>

lemma loop_exhausted:
  "\<not> attempt \<le> maxRetries \<Longrightarrow>
   doWithRetry_loop c meth path body attempt backoff lastErr =
     (Inl (Errorf_w (''request failed after '' @ fmt_d (int maxRetries) @ '' retries: '') lastErr), [])"
  by (subst doWithRetry_loop.simps) simp

lemma loop_return:
  "attempt \<le> maxRetries \<Longrightarrow>
   doWithRetry_body c meth path body attempt backoff = (Return r, evs) \<Longrightarrow>
   doWithRetry_loop c meth path body attempt backoff lastErr = (r, evs)"
  by (subst doWithRetry_loop.simps) simp

lemma loop_continue:
  "attempt \<le> maxRetries \<Longrightarrow>
   doWithRetry_body c meth path body attempt backoff = (Continue backoff' err, evs) \<Longrightarrow>
   doWithRetry_loop c meth path body attempt backoff lastErr =
     (fst (doWithRetry_loop c meth path body (attempt + 1) backoff' (Some err)),
      evs @ snd (doWithRetry_loop c meth path body (attempt + 1) backoff' (Some err)))"
  by (subst doWithRetry_loop.simps) (simp split: prod.splits)

text \<open>The five ways through the loop body, with the events of each.\<close>

lemma body_cases [case_names cancelled badreq neterr final transient]:
  obtains
    e where "0 < attempt" "Done c attempt backoff = Some e"
      "doWithRetry_body c meth path body attempt backoff =
         (Return (Inl (ContextErr e)), [Backoff backoff (Some e)])"
  | err where "NewRequest c meth (baseURL c @ path) = Some err"
      "doWithRetry_body c meth path body attempt backoff =
         (Return (Inl err), if 0 < attempt then [Backoff backoff None] else [])"
  | err where "NewRequest c meth (baseURL c @ path) = None"
      "doWithRetry_body c meth path body attempt backoff =
         (Continue (min (int64 (backoff * 2)) maxBackoff) err,
          (if 0 < attempt then [Backoff backoff None] else [])
            @ [Attempt attempt (payload body) (Inl err)])"
  | resp where "NewRequest c meth (baseURL c @ path) = None"
      "\<not> isRetryable (StatusCode resp)"
      "doWithRetry_body c meth path body attempt backoff =
         (Return (Inr resp),
          (if 0 < attempt then [Backoff backoff None] else [])
            @ [Attempt attempt (payload body) (Inr resp)])"
  | resp where "NewRequest c meth (baseURL c @ path) = None"
      "isRetryable (StatusCode resp)"
      "doWithRetry_body c meth path body attempt backoff =
         (Continue (if 0 < getRetryAfter c (Now c attempt) resp
                    then min (getRetryAfter c (Now c attempt) resp) maxBackoff
                    else min (int64 (backoff * 2)) maxBackoff)
                   (ErrorString (''HTTP '' @ fmt_d (StatusCode resp))),
          (if 0 < attempt then [Backoff backoff None] else [])
            @ [Attempt attempt (payload body) (Inr resp)])"
proof (cases "if attempt > 0 then Done c attempt backoff else None")
  case (Some e)
  then show ?thesis
    by (intro that(1)[of e]) (auto simp: doWithRetry_body_def split: if_splits)
next
  case no_cancel: None
  show ?thesis
  proof (cases "NewRequest c meth (baseURL c @ path)")
    case (Some err)
    with no_cancel show ?thesis
      by (intro that(2)[of err]) (auto simp: doWithRetry_body_def Let_def)
  next
    case built: None
    let ?req = "\<lparr>Method = meth, URL = baseURL c @ path,
                 Body = (case body of None \<Rightarrow> None | Some b \<Rightarrow> Some (NewReader b)),
                 ContentType = ''application/json''\<rparr>"
    have body_eq:
      "doWithRetry_body c meth path body attempt backoff =
         (case Do c attempt ?req (payload body) of
            Inl err \<Rightarrow>
              (Continue (min (int64 (backoff * 2)) maxBackoff) err,
               (if 0 < attempt then [Backoff backoff None] else [])
                 @ [Attempt attempt (payload body) (Do c attempt ?req (payload body))])
          | Inr resp \<Rightarrow>
              if \<not> isRetryable (StatusCode resp)
              then (Return (Inr resp),
                    (if 0 < attempt then [Backoff backoff None] else [])
                      @ [Attempt attempt (payload body) (Do c attempt ?req (payload body))])
              else (Continue (if 0 < getRetryAfter c (Now c attempt) resp
                              then min (getRetryAfter c (Now c attempt) resp) maxBackoff
                              else min (int64 (backoff * 2)) maxBackoff)
                             (ErrorString (''HTTP '' @ fmt_d (StatusCode resp))),
                    (if 0 < attempt then [Backoff backoff None] else [])
                      @ [Attempt attempt (payload body) (Do c attempt ?req (payload body))]))"
      using no_cancel built
      by (cases body)
         (simp_all add: doWithRetry_body_def Let_def payload_def ReadAll_NewReader
            split: sum.splits)
    show ?thesis
    proof (cases "Do c attempt ?req (payload body)")
      case (Inl err)
      with body_eq built show ?thesis by (intro that(3)[of err]) simp_all
    next
      case (Inr resp)
      show ?thesis
      proof (cases "isRetryable (StatusCode resp)")
        case True
        with body_eq built Inr show ?thesis by (intro that(5)[of resp]) simp_all
      next
        case False
        with body_eq built Inr show ?thesis by (intro that(4)[of resp]) simp_all
      qed
    qed
  qed
qed

subsection \<open>The body bytes of every attempt\<close>

lemma loop_sent:
  "set (sent_bodies (snd (doWithRetry_loop c meth path body attempt backoff lastErr)))
     \<subseteq> {payload body}"
proof (induction c meth path body attempt backoff lastErr rule: doWithRetry_loop.induct)
  case (1 c meth path body attempt backoff lastErr)
  show ?case
  proof (cases "attempt \<le> maxRetries")
    case False
    then show ?thesis by (simp add: loop_exhausted)
  next
    case True
    show ?thesis
    proof (cases c meth path body attempt backoff rule: body_cases)
      case (cancelled e)
      then show ?thesis using True by (simp add: loop_return)
    next
      case (badreq err)
      then show ?thesis using True by (simp add: loop_return)
    next
      case (neterr err)
      from "1.IH"[OF True neterr(2)[symmetric] refl] neterr True show ?thesis
        by (simp add: loop_continue sent_bodies_append)
    next
      case (final resp)
      then show ?thesis using True by (simp add: loop_return sent_bodies_append)
    next
      case (transient resp)
      from "1.IH"[OF True transient(3)[symmetric] refl] transient True show ?thesis
        by (simp add: loop_continue sent_bodies_append)
    qed
  qed
qed

lemma loop_first_attempt:
  "attempt \<le> maxRetries \<Longrightarrow> NewRequest c meth (baseURL c @ path) = None \<Longrightarrow>
   (0 < attempt \<Longrightarrow> Done c attempt backoff = None) \<Longrightarrow>
   1 \<le> length (sent_bodies (snd (doWithRetry_loop c meth path body attempt backoff lastErr)))"
  by (cases c meth path body attempt backoff rule: body_cases)
     (auto simp: loop_return loop_continue sent_bodies_append)

text \<open>
  Claim C1. For every method, path and payload, every attempt of doWithRetry (the
  first one and each retry) reads its body from a reader made anew from the \<open>body\<close>
  slice, so the bytes sent are the bytes of \<open>body\<close> each time (none for a nil slice);
  and when the request can be built there is at least one attempt. The body argument
  is a byte slice, never a stream.
\<close>

theorem doWithRetry_same_body_on_every_attempt:
  "sent_bodies (snd (doWithRetry c meth path body)) =
     replicate (length (sent_bodies (snd (doWithRetry c meth path body)))) (payload body)
   \<and> (NewRequest c meth (baseURL c @ path) = None \<longrightarrow>
        1 \<le> length (sent_bodies (snd (doWithRetry c meth path body))))"
  unfolding doWithRetry_def
  using same_replicate[OF loop_sent] loop_first_attempt[of 0]
  by (simp add: maxRetries_def)

theorem doWithRetry_same_body_witness:
  "NewRequest flaky_client ''POST'' (baseURL flaky_client @ ''/v1/events'') = None
   \<and> sent_bodies (snd (doWithRetry flaky_client ''POST'' ''/v1/events'' (Some [123, 125])))
       = [[123, 125], [123, 125], [123, 125]]"
proof -
  have built: "NewRequest flaky_client ''POST'' (baseURL flaky_client @ ''/v1/events'') = None"
    by (simp add: flaky_client_def scripted_def)
  have three:
    "length (sent_bodies (snd (doWithRetry flaky_client ''POST'' ''/v1/events'' (Some [123, 125]))))
       = 3"
    by code_simp
  from doWithRetry_same_body_on_every_attempt
         [of flaky_client "''POST''" "''/v1/events''" "Some [123, 125]"]
  have "sent_bodies (snd (doWithRetry flaky_client ''POST'' ''/v1/events'' (Some [123, 125])))
          = replicate 3 (payload (Some [123, 125]))"
    unfolding three by (rule conjunct1)
  with built show ?thesis
    by (simp add: payload_def numeral_3_eq_3)
qed

subsection \<open>The retry budget\<close>

lemma loop_all_transient:
  "NewRequest c meth (baseURL c @ path) = None \<Longrightarrow>
   all_transient (snd (doWithRetry_loop c meth path body attempt backoff lastErr)) \<Longrightarrow>
   uninterrupted (snd (doWithRetry_loop c meth path body attempt backoff lastErr)) \<Longrightarrow>
   length (results (snd (doWithRetry_loop c meth path body attempt backoff lastErr)))
     = maxRetries + 1 - attempt
   \<and> (attempt \<le> maxRetries \<longrightarrow>
        (\<exists>pre sent resp.
           snd (doWithRetry_loop c meth path body attempt backoff lastErr)
             = pre @ [Attempt maxRetries sent (Inr resp)] \<and>
           fst (doWithRetry_loop c meth path body attempt backoff lastErr)
             = Inl (Errorf_w (''request failed after '' @ fmt_d (int maxRetries) @ '' retries: '')
                     (Some (ErrorString (''HTTP '' @ fmt_d (StatusCode resp)))))))"
proof (induction c meth path body attempt backoff lastErr rule: doWithRetry_loop.induct)
  case (1 c meth path body attempt backoff lastErr)
  show ?case
  proof (cases "attempt \<le> maxRetries")
    case False
    then show ?thesis by (simp add: loop_exhausted)
  next
    case True
    show ?thesis
    proof (cases c meth path body attempt backoff rule: body_cases)
      case (cancelled e)
      then show ?thesis using True "1.prems" by (simp add: loop_return)
    next
      case (badreq err)
      then show ?thesis using "1.prems" by simp
    next
      case (neterr err)
      then show ?thesis using True "1.prems" by (simp add: loop_continue all_transient_append)
    next
      case (final resp)
      then show ?thesis using True "1.prems" by (simp add: loop_return all_transient_append)
    next
      case (transient resp)
      let ?b = "if 0 < getRetryAfter c (Now c attempt) resp
                then min (getRetryAfter c (Now c attempt) resp) maxBackoff
                else min (int64 (backoff * 2)) maxBackoff"
      let ?e = "ErrorString (''HTTP '' @ fmt_d (StatusCode resp))"
      let ?evs = "(if 0 < attempt then [Backoff backoff None] else [])
                    @ [Attempt attempt (payload body) (Inr resp)]"
      let ?next = "doWithRetry_loop c meth path body (attempt + 1) ?b (Some ?e)"
      let ?P = "''request failed after '' @ fmt_d (int maxRetries) @ '' retries: ''"
      have l: "doWithRetry_loop c meth path body attempt backoff lastErr
                 = (fst ?next, ?evs @ snd ?next)"
        using loop_continue[OF True transient(3)] by simp
      from "1.prems"(2,3) have p: "all_transient (snd ?next)" "uninterrupted (snd ?next)"
        unfolding l by (simp_all add: all_transient_append uninterrupted_append)
      from "1.IH"[OF True transient(3)[symmetric] refl "1.prems"(1) p]
      have ih: "length (results (snd ?next)) = maxRetries + 1 - (attempt + 1)"
        "attempt + 1 \<le> maxRetries \<longrightarrow>
          (\<exists>pre sent resp. snd ?next = pre @ [Attempt maxRetries sent (Inr resp)] \<and>
             fst ?next = Inl (Errorf_w ?P (Some (ErrorString (''HTTP '' @ fmt_d (StatusCode resp))))))"
        by blast+
      show ?thesis
      proof (cases "attempt = maxRetries")
        case True
        then have "?next = (Inl (Errorf_w ?P (Some ?e)), [])"
          by (simp add: loop_exhausted)
        then show ?thesis unfolding l using True
          by (simp add: results_append)
      next
        case False
        with True have lt: "attempt + 1 \<le> maxRetries" by simp
        with ih(2) obtain pre sent resp' where
          "snd ?next = pre @ [Attempt maxRetries sent (Inr resp')]"
          "fst ?next = Inl (Errorf_w ?P (Some (ErrorString (''HTTP '' @ fmt_d (StatusCode resp')))))"
          by blast
        then show ?thesis unfolding l using ih(1) lt
          by (auto simp: results_append)
      qed
    qed
  qed
qed

lemma loop_final:
  "Attempt k sent (Inr resp)
     \<in> set (snd (doWithRetry_loop c meth path body attempt backoff lastErr)) \<Longrightarrow>
   \<not> isRetryable (StatusCode resp) \<Longrightarrow>
   fst (doWithRetry_loop c meth path body attempt backoff lastErr) = Inr resp \<and>
   (\<exists>pre. snd (doWithRetry_loop c meth path body attempt backoff lastErr)
            = pre @ [Attempt k sent (Inr resp)])"
proof (induction c meth path body attempt backoff lastErr rule: doWithRetry_loop.induct)
  case (1 c meth path body attempt backoff lastErr)
  show ?case
  proof (cases "attempt \<le> maxRetries")
    case False
    then show ?thesis using "1.prems" by (simp add: loop_exhausted)
  next
    case True
    obtain st evs where b: "doWithRetry_body c meth path body attempt backoff = (st, evs)"
      by (cases "doWithRetry_body c meth path body attempt backoff")
    show ?thesis
    proof (cases st)
      case (Return r)
      have "r = Inr resp \<and> (\<exists>pre. evs = pre @ [Attempt k sent (Inr resp)])"
        using "1.prems" b Return True
        by (cases c meth path body attempt backoff rule: body_cases)
           (auto simp: loop_return split: if_splits)
      then show ?thesis using b Return True by (simp add: loop_return)
    next
      case (Continue b' err)
      let ?next = "doWithRetry_loop c meth path body (attempt + 1) b' (Some err)"
      have l: "doWithRetry_loop c meth path body attempt backoff lastErr
                 = (fst ?next, evs @ snd ?next)"
        using loop_continue[OF True] b Continue by simp
      have "Attempt k sent (Inr resp) \<notin> set evs"
        using b Continue "1.prems"(2)
        by (cases c meth path body attempt backoff rule: body_cases) (auto split: if_splits)
      with "1.prems"(1) have "Attempt k sent (Inr resp) \<in> set (snd ?next)"
        unfolding l by simp
      from "1.IH"[OF True b[symmetric] Continue this "1.prems"(2)] obtain pre where
        "fst ?next = Inr resp" "snd ?next = pre @ [Attempt k sent (Inr resp)]" by blast
      then show ?thesis unfolding l by simp
    qed
  qed
qed

lemma retries_text: "fmt_d (int maxRetries) = ''3''"
  by code_simp

text \<open>
  Claim C2, as stated, fails: a transport that answers 503 every time and a context
  that is done during the first backoff wait. doWithRetry makes the one initial attempt
  and returns \<open>ctx.Err()\<close>, not the error of an exhausted budget.
\<close>

theorem doWithRetry_budget_counterexample:
  "doWithRetry cancelled_client ''GET'' ''/v1/events'' None =
     (Inl (ContextErr Canceled),
      [Attempt 0 [] (with_status 503), Backoff (2 * Second) (Some Canceled)])
   \<and> all_transient (snd (doWithRetry cancelled_client ''GET'' ''/v1/events'' None))
   \<and> length (results (snd (doWithRetry cancelled_client ''GET'' ''/v1/events'' None)))
       < 1 + maxRetries"
  by code_simp

text \<open>
  Claim C2, amended. If the request can be built, every attempt of the run gets a
  response whose status code is in {429, 500, 502, 503, 504}, and no backoff wait of
  the run ends on the context being done, then doWithRetry makes the initial attempt
  and exactly maxRetries (3) more, and returns the error
  "request failed after 3 retries: HTTP <code>" that wraps the failure of the last
  attempt. And in every run, a response whose status code is not in that set is
  returned at once: it is the result, and the attempt that got it is the last event.
\<close>

theorem doWithRetry_budget:
  fixes c meth path body
  defines "run \<equiv> doWithRetry c meth path body"
  shows
   "(NewRequest c meth (baseURL c @ path) = None \<and> all_transient (snd run)
       \<and> uninterrupted (snd run) \<longrightarrow>
     length (results (snd run)) = 1 + maxRetries \<and>
     (\<exists>pre sent resp.
        snd run = pre @ [Attempt maxRetries sent (Inr resp)] \<and>
        fst run = Inl (Errorf_w ''request failed after 3 retries: ''
                        (Some (ErrorString (''HTTP '' @ fmt_d (StatusCode resp)))))))
    \<and> (\<forall>k sent resp.
         Attempt k sent (Inr resp) \<in> set (snd run) \<and> \<not> isRetryable (StatusCode resp) \<longrightarrow>
         fst run = Inr resp \<and> (\<exists>pre. snd run = pre @ [Attempt k sent (Inr resp)]))"
proof (intro conjI impI allI)
  assume h: "NewRequest c meth (baseURL c @ path) = None \<and> all_transient (snd run)
       \<and> uninterrupted (snd run)"
  then have h': "NewRequest c meth (baseURL c @ path) = None"
    "all_transient (snd (doWithRetry_loop c meth path body 0 initialBackoff None))"
    "uninterrupted (snd (doWithRetry_loop c meth path body 0 initialBackoff None))"
    by (simp_all add: run_def doWithRetry_def)
  from loop_all_transient[OF h']
  show "length (results (snd run)) = 1 + maxRetries"
    by (simp add: run_def doWithRetry_def)
  from loop_all_transient[OF h']
  show "\<exists>pre sent resp.
        snd run = pre @ [Attempt maxRetries sent (Inr resp)] \<and>
        fst run = Inl (Errorf_w ''request failed after 3 retries: ''
                        (Some (ErrorString (''HTTP '' @ fmt_d (StatusCode resp)))))"
    by (simp add: run_def doWithRetry_def retries_text)
next
  fix k sent resp
  assume "Attempt k sent (Inr resp) \<in> set (snd run) \<and> \<not> isRetryable (StatusCode resp)"
  then show "fst run = Inr resp" "\<exists>pre. snd run = pre @ [Attempt k sent (Inr resp)]"
    using loop_final[of k sent resp c meth path body 0 initialBackoff None]
    by (simp_all add: run_def doWithRetry_def)
qed


theorem doWithRetry_budget_witness:
  "(NewRequest unavailable_client ''GET'' (baseURL unavailable_client @ ''/v1/events'') = None
    \<and> all_transient (snd (doWithRetry unavailable_client ''GET'' ''/v1/events'' None))
    \<and> uninterrupted (snd (doWithRetry unavailable_client ''GET'' ''/v1/events'' None))
    \<and> length (results (snd (doWithRetry unavailable_client ''GET'' ''/v1/events'' None))) = 4
    \<and> fst (doWithRetry unavailable_client ''GET'' ''/v1/events'' None)
        = Inl (WrapError ''request failed after 3 retries: HTTP 503''
                 (Some (ErrorString ''HTTP 503''))))
   \<and> (Attempt 0 [] (with_status 404)
         \<in> set (snd (doWithRetry notfound_client ''GET'' ''/v1/events/7'' None))
      \<and> \<not> isRetryable 404
      \<and> fst (doWithRetry notfound_client ''GET'' ''/v1/events/7'' None) = with_status 404
      \<and> length (results (snd (doWithRetry notfound_client ''GET'' ''/v1/events/7'' None))) = 1)"
proof -
  let ?run = "doWithRetry unavailable_client ''GET'' ''/v1/events'' None"
  let ?run' = "doWithRetry notfound_client ''GET'' ''/v1/events/7'' None"
  have tr: "snd ?run =
      [Attempt 0 [] (with_status 503), Backoff (2 * Second) None,
       Attempt 1 [] (with_status 503), Backoff (4 * Second) None,
       Attempt 2 [] (with_status 503), Backoff (8 * Second) None,
       Attempt 3 [] (with_status 503)]"
    by code_simp
  have h: "NewRequest unavailable_client ''GET'' (baseURL unavailable_client @ ''/v1/events'') = None
      \<and> all_transient (snd ?run) \<and> uninterrupted (snd ?run)"
    unfolding tr by (simp add: unavailable_client_def scripted_def with_status_def isRetryable_def)
  from doWithRetry_budget[of unavailable_client "''GET''" "''/v1/events''" None] h
  obtain pre sent resp where
    n: "length (results (snd ?run)) = 1 + maxRetries" and
    l: "snd ?run = pre @ [Attempt maxRetries sent (Inr resp)]" and
    r: "fst ?run = Inl (Errorf_w ''request failed after 3 retries: ''
                        (Some (ErrorString (''HTTP '' @ fmt_d (StatusCode resp)))))"
    by blast
  from l have "last (snd ?run) = Attempt maxRetries sent (Inr resp)" by simp
  then have "resp = \<lparr>StatusCode = 503, RetryAfter = []\<rparr>"
    unfolding tr by (simp add: with_status_def)
  moreover have "fmt_d 503 = ''503''" by code_simp
  ultimately have r': "fst ?run = Inl (WrapError ''request failed after 3 retries: HTTP 503''
                 (Some (ErrorString ''HTTP 503'')))"
    using r by (simp add: Errorf_w_def)
  have tr': "snd ?run' = [Attempt 0 [] (with_status 404)]"
    by code_simp
  have h': "Attempt 0 [] (Inr \<lparr>StatusCode = 404, RetryAfter = []\<rparr>) \<in> set (snd ?run')
      \<and> \<not> isRetryable (StatusCode \<lparr>StatusCode = 404, RetryAfter = []\<rparr>)"
    unfolding tr' by (simp add: with_status_def isRetryable_def)
  from doWithRetry_budget[of notfound_client "''GET''" "''/v1/events/7''" None] h'
  have "fst ?run' = Inr \<lparr>StatusCode = 404, RetryAfter = []\<rparr>"
    by blast
  with h h' n r' show ?thesis
    by (simp add: maxRetries_def with_status_def tr')
qed

subsection \<open>The backoff waits\<close>

text \<open>What getRetryAfter returns, case by case: nothing to read, whole seconds (within
  the range of int64 nanoseconds), an HTTP date, neither.\<close>

lemma getRetryAfter_absent:
  "RetryAfter resp = [] \<Longrightarrow> getRetryAfter c now resp = 0"
  by (simp add: getRetryAfter_def)

lemma getRetryAfter_seconds:
  "RetryAfter resp \<noteq> [] \<Longrightarrow> Atoi c (RetryAfter resp) = Some n \<Longrightarrow>
   - (2 ^ 63) \<le> n * Second \<Longrightarrow> n * Second < 2 ^ 63 \<Longrightarrow> getRetryAfter c now resp = n * Second"
proof -
  assume a: "RetryAfter resp \<noteq> []" "Atoi c (RetryAfter resp) = Some n"
    and n: "- (2 ^ 63) \<le> n * Second" "n * Second < 2 ^ 63"
  from n have "- (2 ^ 63) \<le> n" "n < 2 ^ 63" by (simp_all add: Second_def)
  with n have "int64 n = n" "int64 (n * Second) = n * Second"
    by (simp_all add: int64_def Second_def)
  with a show ?thesis by (simp add: getRetryAfter_def)
qed

lemma getRetryAfter_date:
  "RetryAfter resp \<noteq> [] \<Longrightarrow> Atoi c (RetryAfter resp) = None \<Longrightarrow>
   ParseTime c (RetryAfter resp) = Some t \<Longrightarrow> getRetryAfter c now resp = time_Until t now"
  by (simp add: getRetryAfter_def)

lemma getRetryAfter_unparsed:
  "Atoi c (RetryAfter resp) = None \<Longrightarrow> ParseTime c (RetryAfter resp) = None \<Longrightarrow>
   getRetryAfter c now resp = 0"
  by (simp add: getRetryAfter_def Let_def)

text \<open>The saturation of \<open>time.Until\<close> does not show after the cap at 30 s.\<close>

lemma time_Until_capped:
  "(if 0 < time_Until t now then min (time_Until t now) (30 * Second) else x)
     = (if 0 < t - now then min (t - now) (30 * Second) else x)"
  by (simp add: time_Until_def Second_def)

text \<open>
  For a response whose seconds fit, the choice the source makes from what getRetryAfter
  returns is the choice the specification makes from the header.
\<close>

lemma getRetryAfter_fits:
  assumes "fits c resp"
  shows "(if 0 < getRetryAfter c now resp
          then min (getRetryAfter c now resp) (30 * Second) else x)
       = (case spec_retry_after c now resp of
            Some d \<Rightarrow> if 0 < d then min d (30 * Second) else x
          | None \<Rightarrow> x)"
proof (cases "RetryAfter resp = []")
  case True
  then show ?thesis by (simp add: getRetryAfter_absent spec_retry_after_def)
next
  case header: False
  show ?thesis
  proof (cases "Atoi c (RetryAfter resp)")
    case (Some n)
    with assms have "- (2 ^ 63) \<le> n * Second" "n * Second < 2 ^ 63"
      by (simp_all add: fits_def)
    from getRetryAfter_seconds[OF header Some this] header Some show ?thesis
      by (simp add: spec_retry_after_def)
  next
    case no_int: None
    show ?thesis
    proof (cases "ParseTime c (RetryAfter resp)")
      case None
      with no_int header show ?thesis
        by (simp add: getRetryAfter_unparsed spec_retry_after_def)
    next
      case (Some t)
      have g: "getRetryAfter c now resp = time_Until t now"
        by (rule getRetryAfter_date[OF header no_int Some])
      have s: "spec_retry_after c now resp = Some (t - now)"
        using header no_int Some by (simp add: spec_retry_after_def)
      show ?thesis
        unfolding g s time_Until_capped by simp
    qed
  qed
qed

lemma all_fit_append: "all_fit c (xs @ ys) = (all_fit c xs \<and> all_fit c ys)"
  by (induction c xs rule: all_fit.induct) auto

lemma backoff_double:
  "0 < b \<Longrightarrow> b \<le> 30 * Second \<Longrightarrow>
   min (int64 (b * 2)) (30 * Second) = min (2 * b) (30 * Second)"
  by (simp add: int64_def Second_def)

lemma body_continue_range:
  "doWithRetry_body c meth path body attempt backoff = (Continue b' err, evs) \<Longrightarrow>
   0 < backoff \<Longrightarrow> backoff \<le> maxBackoff \<Longrightarrow> 0 < b' \<and> b' \<le> maxBackoff"
  by (cases c meth path body attempt backoff rule: body_cases)
     (auto simp: int64_def maxBackoff_def Second_def split: if_splits)

lemma body_continue_spec:
  assumes "doWithRetry_body c meth path body attempt backoff = (Continue b' err, evs)"
    and "0 < backoff" "backoff \<le> maxBackoff" "all_fit c evs"
  shows "\<exists>res. results evs = [(attempt, res)] \<and> b' = spec_wait c backoff (attempt, res)
      \<and> waits evs = (if 0 < attempt then [backoff] else [])"
proof (cases c meth path body attempt backoff rule: body_cases)
  case (cancelled e)
  with assms(1) show ?thesis by simp
next
  case (badreq err')
  with assms(1) show ?thesis by simp
next
  case (final resp)
  with assms(1) show ?thesis by simp
next
  case (neterr err')
  with assms(1-3) show ?thesis
    by (auto simp: results_append waits_append spec_wait_def backoff_double maxBackoff_def)
next
  case (transient resp)
  with assms(1,4) have f: "fits c resp"
    by (auto simp: all_fit_append)
  have "b' = (if 0 < getRetryAfter c (Now c attempt) resp
              then min (getRetryAfter c (Now c attempt) resp) (30 * Second)
              else min (2 * backoff) (30 * Second))"
    using transient(3) assms(1-3) by (simp add: backoff_double maxBackoff_def)
  also have "\<dots> = spec_wait c backoff (attempt, Inr resp)"
    unfolding getRetryAfter_fits[OF f] by (simp add: spec_wait_def)
  finally have "b' = spec_wait c backoff (attempt, Inr resp)" .
  moreover have "results evs = [(attempt, Inr resp)]"
    "waits evs = (if 0 < attempt then [backoff] else [])"
    using transient(3) assms(1) by (auto simp: results_append waits_append)
  ultimately show ?thesis by blast
qed

lemma body_return_waits:
  "doWithRetry_body c meth path body attempt backoff = (Return r, evs) \<Longrightarrow>
   waits evs = (if 0 < attempt then [backoff] else [])"
  by (cases c meth path body attempt backoff rule: body_cases)
     (auto simp: results_append waits_append)

lemma loop_waits:
  "0 < backoff \<Longrightarrow> backoff \<le> maxBackoff \<Longrightarrow>
   all_fit c (snd (doWithRetry_loop c meth path body attempt backoff lastErr)) \<Longrightarrow>
   waits (snd (doWithRetry_loop c meth path body attempt backoff lastErr)) =
     take (length (waits (snd (doWithRetry_loop c meth path body attempt backoff lastErr))))
       ((if 0 < attempt then [backoff] else []) @
        spec_waits c backoff
          (results (snd (doWithRetry_loop c meth path body attempt backoff lastErr))))"
proof (induction c meth path body attempt backoff lastErr rule: doWithRetry_loop.induct)
  case (1 c meth path body attempt backoff lastErr)
  show ?case
  proof (cases "attempt \<le> maxRetries")
    case False
    then show ?thesis by (simp add: loop_exhausted)
  next
    case True
    obtain st evs where b: "doWithRetry_body c meth path body attempt backoff = (st, evs)"
      by (cases "doWithRetry_body c meth path body attempt backoff")
    show ?thesis
    proof (cases st)
      case (Return r)
      with b True body_return_waits[of c meth path body attempt backoff r evs]
      show ?thesis by (simp add: loop_return)
    next
      case (Continue b' err)
      let ?next = "doWithRetry_loop c meth path body (attempt + 1) b' (Some err)"
      from b Continue
      have bc: "doWithRetry_body c meth path body attempt backoff = (Continue b' err, evs)"
        by simp
      have l: "doWithRetry_loop c meth path body attempt backoff lastErr
                 = (fst ?next, evs @ snd ?next)"
        using loop_continue[OF True bc] by simp
      from "1.prems"(3) have fit: "all_fit c evs" "all_fit c (snd ?next)"
        unfolding l by (simp_all add: all_fit_append)
      from body_continue_range[OF bc "1.prems"(1,2)] have r: "0 < b'" "b' \<le> maxBackoff" by auto
      from body_continue_spec[OF bc "1.prems"(1,2) fit(1)] obtain res where
        res: "results evs = [(attempt, res)]" "b' = spec_wait c backoff (attempt, res)"
             "waits evs = (if 0 < attempt then [backoff] else [])" by blast
      from "1.IH"[OF True b[symmetric] Continue r fit(2)]
      have ih: "waits (snd ?next) =
                  take (length (waits (snd ?next))) (b' # spec_waits c b' (results (snd ?next)))"
        by simp
      show ?thesis
        unfolding l using res ih
        by (simp add: waits_append results_append)
    qed
  qed
qed

text \<open>
  As long as the seconds of every Retry-After header received fit int64 nanoseconds
  (at most 9223372036 seconds either way), the durations doWithRetry waits before its
  retries are the ones the specification prescribes for the attempts made so far:
  \<open>min d maxBackoff\<close> after a transient response whose header stands for a positive
  duration \<open>d\<close>, twice the previous backoff capped at 30 s after any other transient
  response and after every network error, from initialBackoff = 1 s. HTTP dates are
  under no such condition.
\<close>

lemma doWithRetry_waits_in_range:
  "all_fit c (snd (doWithRetry c meth path body)) \<Longrightarrow>
   waits (snd (doWithRetry c meth path body)) =
     take (length (waits (snd (doWithRetry c meth path body))))
       (spec_waits c (1 * Second) (results (snd (doWithRetry c meth path body))))"
  using loop_waits[of initialBackoff c meth path body 0 None]
  by (simp add: doWithRetry_def initialBackoff_def maxBackoff_def Second_def)

text \<open>Two runs within the range: seconds and a network error, then HTTP dates.\<close>

lemma doWithRetry_waits_seconds:
  "waits (snd (doWithRetry throttled_client ''PATCH'' ''/v1/events/7'' (Some [123, 125])))
     = [5 * Second, 10 * Second, 30 * Second]"
proof -
  let ?tr = "snd (doWithRetry throttled_client ''PATCH'' ''/v1/events/7'' (Some [123, 125]))"
  have f: "all_fit throttled_client ?tr"
    by code_simp
  have r: "results ?tr =
      [(0, with_retry_after 429 ''5''), (1, Inl (LibError ''connection refused'')),
       (2, with_retry_after 503 ''120''), (3, with_status 200)]"
    by code_simp
  have n: "length (waits ?tr) = 3"
    by code_simp
  have s: "spec_waits throttled_client (1 * Second)
             [(0, with_retry_after 429 ''5''), (1, Inl (LibError ''connection refused'')),
              (2, with_retry_after 503 ''120''), (3, with_status 200)]
           = [5 * Second, 10 * Second, 30 * Second, 30 * Second]"
    by code_simp
  from doWithRetry_waits_in_range[OF f]
  show ?thesis
    unfolding r n s by (simp add: numeral_3_eq_3)
qed

lemma doWithRetry_waits_dates:
  "all_fit dated_client (snd (doWithRetry dated_client ''GET'' ''/v1/events'' None))
   \<and> spec_retry_after dated_client (Now dated_client 0)
        \<lparr>StatusCode = 503, RetryAfter = ''Wed, 21 Oct 2015 07:28:00 GMT''\<rparr> = Some (7 * Second)
   \<and> spec_retry_after dated_client (Now dated_client 1)
        \<lparr>StatusCode = 503, RetryAfter = ''Wed, 21 Oct 2015 07:20:00 GMT''\<rparr> = Some (- 481 * Second)
   \<and> waits (snd (doWithRetry dated_client ''GET'' ''/v1/events'' None))
       = [7 * Second, 14 * Second]"
  by code_simp

text \<open>
  Claim C3 fails on the code where the seconds of a Retry-After header, taken as
  nanoseconds, leave int64: \<open>time.Duration(seconds) * time.Second\<close> wraps around. A 429
  with \<open>Retry-After: 9223372037\<close> stands for a positive duration far above maxBackoff,
  for which the claim gives a wait of 30 s; the product is negative, getRetryAfter's
  result fails the test \<open>retryAfter > 0\<close>, and the wait is the doubled backoff, 2 s. With
  \<open>Retry-After: 18446744074\<close> the product wraps to 290448384 ns, and that is the wait.
\<close>

theorem doWithRetry_waits_overflow:
  "results (snd (doWithRetry overflowing_client ''GET'' ''/v1/events'' None))
     = [(0, with_retry_after 429 ''9223372037''), (1, with_status 200)]
   \<and> spec_retry_after overflowing_client (Now overflowing_client 0)
        \<lparr>StatusCode = 429, RetryAfter = ''9223372037''\<rparr> = Some (9223372037 * Second)
   \<and> spec_waits overflowing_client (1 * Second) [(0, with_retry_after 429 ''9223372037'')]
       = [30 * Second]
   \<and> getRetryAfter overflowing_client (Now overflowing_client 0)
        \<lparr>StatusCode = 429, RetryAfter = ''9223372037''\<rparr> = - 9223372036709551616
   \<and> waits (snd (doWithRetry overflowing_client ''GET'' ''/v1/events'' None)) = [2 * Second]
   \<and> results (snd (doWithRetry wrapping_client ''GET'' ''/v1/events'' None))
       = [(0, with_retry_after 429 ''18446744074''), (1, with_status 200)]
   \<and> spec_waits wrapping_client (1 * Second) [(0, with_retry_after 429 ''18446744074'')]
       = [30 * Second]
   \<and> waits (snd (doWithRetry wrapping_client ''GET'' ''/v1/events'' None)) = [290448384]"
  by code_simp

subsection \<open>Cancellation during a backoff wait\<close>

lemma body_cancelled:
  "0 < attempt \<Longrightarrow> Done c attempt backoff = Some e \<Longrightarrow>
   doWithRetry_body c meth path body attempt backoff
     = (Return (Inl (ContextErr e)), [Backoff backoff (Some e)])"
  by (simp add: doWithRetry_body_def)

lemma body_continue_results:
  "doWithRetry_body c meth path body attempt backoff = (Continue b' err, evs) \<Longrightarrow>
   map fst (results evs) = [attempt]"
  by (cases c meth path body attempt backoff rule: body_cases)
     (auto simp: results_append)

text \<open>
  When the loop gets to the pass for \<open>attempt\<close> with the backoff \<open>d\<close>, the run so far is
  one request for each earlier attempt, and the rest of the run is the loop from there.
\<close>

lemma backoff_at_run:
  "backoff_at c meth path body k = Some d \<Longrightarrow>
   \<exists>pre lastErr.
     doWithRetry c meth path body
       = (fst (doWithRetry_loop c meth path body k d lastErr),
          pre @ snd (doWithRetry_loop c meth path body k d lastErr))
     \<and> map fst (results pre) = [0..<k]"
proof (induction k arbitrary: d)
  case 0
  then show ?case
    by (intro exI[of _ "[]"] exI[of _ None]) (simp add: doWithRetry_def)
next
  case (Suc k)
  from Suc.prems obtain b where b: "backoff_at c meth path body k = Some b"
    by (cases "backoff_at c meth path body k") simp_all
  with Suc.prems have k: "k \<le> maxRetries"
    by (simp split: if_splits)
  obtain st evs where body: "doWithRetry_body c meth path body k b = (st, evs)"
    by (cases "doWithRetry_body c meth path body k b")
  with Suc.prems b k obtain err where st: "st = Continue d err"
    by (cases st) simp_all
  from Suc.IH[OF b] obtain pre lastErr where
    run: "doWithRetry c meth path body
            = (fst (doWithRetry_loop c meth path body k b lastErr),
               pre @ snd (doWithRetry_loop c meth path body k b lastErr))"
    and pre: "map fst (results pre) = [0..<k]"
    by blast
  from loop_continue[OF k body[unfolded st], of lastErr]
  have "doWithRetry c meth path body
          = (fst (doWithRetry_loop c meth path body (Suc k) d (Some err)),
             (pre @ evs) @ snd (doWithRetry_loop c meth path body (Suc k) d (Some err)))"
    unfolding run by simp
  moreover have "map fst (results (pre @ evs)) = [0..<Suc k]"
    using pre body_continue_results[OF body[unfolded st]] by (simp add: results_append)
  ultimately show ?case by blast
qed

lemma loop_cancelled:
  "Backoff d (Some e)
     \<in> set (snd (doWithRetry_loop c meth path body attempt backoff lastErr)) \<Longrightarrow>
   fst (doWithRetry_loop c meth path body attempt backoff lastErr) = Inl (ContextErr e) \<and>
   (\<exists>pre. snd (doWithRetry_loop c meth path body attempt backoff lastErr)
            = pre @ [Backoff d (Some e)])"
proof (induction c meth path body attempt backoff lastErr rule: doWithRetry_loop.induct)
  case (1 c meth path body attempt backoff lastErr)
  show ?case
  proof (cases "attempt \<le> maxRetries")
    case False
    then show ?thesis using "1.prems" by (simp add: loop_exhausted)
  next
    case True
    obtain st evs where b: "doWithRetry_body c meth path body attempt backoff = (st, evs)"
      by (cases "doWithRetry_body c meth path body attempt backoff")
    show ?thesis
    proof (cases st)
      case (Return r)
      have "r = Inl (ContextErr e) \<and> evs = [Backoff d (Some e)]"
        using "1.prems" b Return True
        by (cases c meth path body attempt backoff rule: body_cases)
           (auto simp: loop_return split: if_splits)
      then show ?thesis using b Return True by (simp add: loop_return)
    next
      case (Continue b' err)
      let ?next = "doWithRetry_loop c meth path body (attempt + 1) b' (Some err)"
      have l: "doWithRetry_loop c meth path body attempt backoff lastErr
                 = (fst ?next, evs @ snd ?next)"
        using loop_continue[OF True] b Continue by simp
      have "Backoff d (Some e) \<notin> set evs"
        using b Continue
        by (cases c meth path body attempt backoff rule: body_cases) (auto split: if_splits)
      with "1.prems" have "Backoff d (Some e) \<in> set (snd ?next)"
        unfolding l by simp
      from "1.IH"[OF True b[symmetric] Continue this] obtain pre where
        "fst ?next = Inl (ContextErr e)" "snd ?next = pre @ [Backoff d (Some e)]" by blast
      then show ?thesis unfolding l by simp
    qed
  qed
qed

text \<open>
  Claim C4. Let doWithRetry get to the backoff wait before attempt \<open>k\<close> (the loop is at
  the top of pass \<open>k\<close>, one of the retries 1 to maxRetries, with the backoff \<open>d\<close>), and
  let the caller's context be done while that delay is waited out (\<open>ctx.Done()\<close> is
  ready before \<open>time.After(d)\<close>, and \<open>ctx.Err()\<close> is \<open>e\<close>). Then doWithRetry returns
  \<open>ctx.Err()\<close>, and the run is the requests of the attempts 0 to \<open>k - 1\<close> with their
  waits, followed by this wait as its last event: no HTTP request is issued after it.
\<close>

theorem doWithRetry_cancelled_in_backoff:
  assumes "0 < k" and "k \<le> maxRetries"
    and "backoff_at c meth path body k = Some d"
    and "Done c k d = Some e"
  shows "fst (doWithRetry c meth path body) = Inl (ContextErr e)
     \<and> (\<exists>pre. snd (doWithRetry c meth path body) = pre @ [Backoff d (Some e)]
            \<and> map fst (results pre) = [0..<k])
     \<and> map fst (results (snd (doWithRetry c meth path body))) = [0..<k]"
proof -
  from backoff_at_run[OF assms(3)] obtain pre lastErr where
    run: "doWithRetry c meth path body
            = (fst (doWithRetry_loop c meth path body k d lastErr),
               pre @ snd (doWithRetry_loop c meth path body k d lastErr))"
    and pre: "map fst (results pre) = [0..<k]"
    by blast
  have "doWithRetry_loop c meth path body k d lastErr
          = (Inl (ContextErr e), [Backoff d (Some e)])"
    using loop_return[OF assms(2) body_cancelled[OF assms(1,4)]] .
  with run have "doWithRetry c meth path body
                   = (Inl (ContextErr e), pre @ [Backoff d (Some e)])"
    by simp
  with pre show ?thesis
    by (simp add: results_append)
qed

theorem doWithRetry_cancelled_in_backoff_witness:
  "backoff_at deadline_client ''DELETE'' ''/v1/events/7'' None 2 = Some (4 * Second)
   \<and> Done deadline_client 2 (4 * Second) = Some DeadlineExceeded
   \<and> fst (doWithRetry deadline_client ''DELETE'' ''/v1/events/7'' None)
       = Inl (ContextErr DeadlineExceeded)
   \<and> map fst (results (snd (doWithRetry deadline_client ''DELETE'' ''/v1/events/7'' None)))
       = [0, 1]
   \<and> last (snd (doWithRetry deadline_client ''DELETE'' ''/v1/events/7'' None))
       = Backoff (4 * Second) (Some DeadlineExceeded)"
proof -
  let ?run = "doWithRetry deadline_client ''DELETE'' ''/v1/events/7'' None"
  have b: "backoff_at deadline_client ''DELETE'' ''/v1/events/7'' None 2 = Some (4 * Second)"
    by code_simp
  have d: "Done deadline_client 2 (4 * Second) = Some DeadlineExceeded"
    by (simp add: deadline_client_def scripted_def)
  have k: "(0::nat) < 2" "2 \<le> maxRetries"
    by (simp_all add: maxRetries_def)
  from doWithRetry_cancelled_in_backoff[OF k b d] obtain pre where
    "fst ?run = Inl (ContextErr DeadlineExceeded)"
    "snd ?run = pre @ [Backoff (4 * Second) (Some DeadlineExceeded)]"
    "map fst (results (snd ?run)) = [0..<2]"
    by blast
  moreover have "[0..<2] = [0, Suc 0]"
    by (simp add: upt_rec)
  ultimately show ?thesis
    using b d by simp
qed

section \<open>Properties of the credential store\<close>

text \<open>
  Claim C9, as stated, fails for GetActiveProfile: before the store is initialized it
  returns the name "default", and its result type has no error to report.
\<close>

theorem store_before_init_counterexample:
  "GetActiveProfile (uninitialized Map.empty) = ''default''
   \<and> reported plain_sys OpGetActiveProfile (uninitialized Map.empty) = None"
  by (simp add: GetActiveProfile_def uninitialized_def)

text \<open>
  Claim C9, amended. Before the store is initialized (the variable \<open>store\<close> is nil),
  each of StoreAPIKey, GetStoredAPIKey, DeleteAPIKey, SetActiveProfile and ListProfiles
  (and GetAPIKey when PE_API_KEY is not set) reports the error "credential store not
  initialized - run 'porteden auth login' first", and those that write leave the store
  and the disk as they were. GetActiveProfile reports no error: it returns "default".
  GetAPIKey with PE_API_KEY set returns that key.
\<close>

theorem store_before_init:
  assumes "store a = None"
  shows "(op \<noteq> OpGetActiveProfile
            \<and> (\<forall>p. op = OpGetAPIKey p \<longrightarrow> Getenv sys ''PE_API_KEY'' = []) \<longrightarrow>
          reported sys op a
            = Some (ErrorString
                ''credential store not initialized - run 'porteden auth login' first''))
     \<and> snd (StoreAPIKey sys apiKey profile a) = a
     \<and> snd (DeleteAPIKey sys profile a) = a
     \<and> snd (SetActiveProfile sys profile a) = a
     \<and> GetActiveProfile a = ''default''
     \<and> (Getenv sys ''PE_API_KEY'' \<noteq> [] \<longrightarrow>
          GetAPIKey sys profile a = Inr (Getenv sys ''PE_API_KEY''))"
  using assms
  by (cases op)
     (simp_all add: StoreAPIKey_def GetStoredAPIKey_def GetAPIKey_def DeleteAPIKey_def
        SetActiveProfile_def ListProfiles_def GetActiveProfile_def ensureStore_def)

theorem store_before_init_witness:
  "store (uninitialized Map.empty) = None
   \<and> fst (StoreAPIKey plain_sys ''pe_k'' ''work'' (uninitialized Map.empty))
       = Some (ErrorString ''credential store not initialized - run 'porteden auth login' first'')
   \<and> GetStoredAPIKey plain_sys ''work'' (uninitialized Map.empty)
       = Inl (ErrorString ''credential store not initialized - run 'porteden auth login' first'')
   \<and> GetAPIKey plain_sys ''work'' (uninitialized Map.empty)
       = Inl (ErrorString ''credential store not initialized - run 'porteden auth login' first'')
   \<and> fst (DeleteAPIKey plain_sys ''work'' (uninitialized Map.empty))
       = Some (ErrorString ''credential store not initialized - run 'porteden auth login' first'')
   \<and> fst (SetActiveProfile plain_sys ''work'' (uninitialized Map.empty))
       = Some (ErrorString ''credential store not initialized - run 'porteden auth login' first'')
   \<and> ListProfiles (uninitialized Map.empty)
       = Inl (ErrorString ''credential store not initialized - run 'porteden auth login' first'')
   \<and> snd (StoreAPIKey plain_sys ''pe_k'' ''work'' (uninitialized Map.empty))
       = uninitialized Map.empty"
proof -
  have nil: "store (uninitialized Map.empty) = None"
    by (simp add: uninitialized_def)
  have env: "Getenv plain_sys ''PE_API_KEY'' = []"
    by (simp add: plain_sys_def)
  note t = store_before_init[OF nil, where sys = plain_sys and apiKey = "''pe_k''"
      and profile = "''work''"]
  from t[where op = "OpStoreAPIKey ''pe_k'' ''work''"] t[where op = "OpGetStoredAPIKey ''work''"]
       t[where op = "OpGetAPIKey ''work''"] t[where op = "OpDeleteAPIKey ''work''"]
       t[where op = "OpSetActiveProfile ''work''"] t[where op = OpListProfiles] nil env
  show ?thesis by (simp split: sum.splits)
qed

section \<open>Properties of the browser login flow\<close>

subsection \<open>The poll loop, piece by piece\<close>

lemma poll_loop_keeps:
  "keeps_polling pre \<Longrightarrow>
   poll_loop (pre @ ws) = (fst (poll_loop ws), length pre + snd (poll_loop ws))"
  by (induction pre rule: keeps_polling.induct) (simp_all split: prod.splits)

lemma poll_loop_terminal:
  "keeps_polling pre \<Longrightarrow> on_tick x = Some r \<Longrightarrow>
   poll_loop (pre @ Other x # post) = (Some r, Suc (length pre))"
  by (simp add: poll_loop_keeps)

lemma poll_loop_timer:
  "keeps_polling pre \<Longrightarrow>
   poll_loop (pre @ TimerC # post) = (Some (Inl (ErrorString ''login timed out'')), length pre)"
  by (simp add: poll_loop_keeps)

lemma on_tick_404:
  "\<forall>e. b \<noteq> ReadError e \<Longrightarrow>
   on_tick (Got 404 b) = Some (Inl (ErrorString ''login session expired. Please try again''))"
  by (cases b) (auto simp: on_tick_def)

lemma on_tick_pending: "Status r = ''pending'' \<Longrightarrow> on_tick (Got 200 (Decoded r)) = None"
  by (simp add: on_tick_def)

lemma Login_poll_error:
  assumes "MarshalErr w = None" "NewRequestErr w = None"
    "Initiate w (reqBody operatorID keyTitle) = Got 200 (Decoded loginResp)"
    "pollForCompletion w (SessionToken loginResp) (PollSecret loginResp) (ExpiresAt loginResp)
       = (Some (Inl err), n)"
  shows "Login w sys profile operatorID keyTitle a = (Some (Inl err), n, a)"
  using assms by (simp add: Login_def)

lemma Login_poll_key:
  assumes "MarshalErr w = None" "NewRequestErr w = None"
    "Initiate w (reqBody operatorID keyTitle) = Got 200 (Decoded loginResp)"
    "pollForCompletion w (SessionToken loginResp) (PollSecret loginResp) (ExpiresAt loginResp)
       = (Some (Inr k), n)"
  shows "Login w sys profile operatorID keyTitle a =
     (case StoreAPIKey sys k (if profile = [] then ''default'' else profile) a of
        (Some err, a') \<Rightarrow> (Some (Inl (Errorf_w ''failed to store API key: '' (Some err))), n, a')
      | (None, a') \<Rightarrow> (Some (Inr k), n, a'))"
  using assms by (simp add: Login_def)

lemma StoreAPIKey_ok:
  assumes "store a = Some st" "UserHomeDir sys = Inr home"
    "MkdirAll sys (Join sys [home, ''.config'', ''porteden'']) = None"
    "MarshalIndentErr sys = None" "WriteFile sys (credentialsPath sys home) = None"
    "profile \<noteq> []"
  shows "StoreAPIKey sys k profile a =
    (None, a\<lparr>store := Some (st\<lparr>Profiles := fmupd profile k (Profiles st)\<rparr>),
            files := (files a)(credentialsPath sys home
                       \<mapsto> encode (Some (st\<lparr>Profiles := fmupd profile k (Profiles st)\<rparr>)))\<rparr>)"
  using assms
  by (simp add: StoreAPIKey_def ensureStore_def saveStore_def configDir_def
      credentialsPath_def Let_def)

subsection \<open>Pending, pending, completed\<close>

text \<open>
  Claim C5, as stated, fails in two ways. When the credentials file cannot be written,
  the three polls are made and the key is received, but StoreAPIKey reports the
  failure and Login returns an error, not the key; no file is written. And the key goes
  under the profile passed to Login, not under the active profile of the store: after
  "work" has been made the active profile, a Login for the profile "default" stores
  the key under "default", and a lookup under the active profile still finds no key.
\<close>

theorem Login_three_polls_counterexample:
  "fst (Login three_polls readonly_sys ''work'' [] [] initialized)
     = Some (Inl (WrapError
         ''failed to store API key: failed to write credentials file: permission denied''
         (Some (WrapError ''failed to write credentials file: permission denied''
                  (Some (LibError ''permission denied''))))))
   \<and> fst (snd (Login three_polls readonly_sys ''work'' [] [] initialized)) = 3
   \<and> files (snd (snd (Login three_polls readonly_sys ''work'' [] [] initialized)))
        (credentialsPath readonly_sys ''/home/u'') = None
   \<and> GetActiveProfile switched_to_work = ''work''
   \<and> fst (Login three_polls plain_sys ''default'' [] [] switched_to_work)
       = Some (Inr ''pe_k'')
   \<and> store (snd (snd (Login three_polls plain_sys ''default'' [] [] switched_to_work)))
       = Some \<lparr>ActiveProfile = ''work'', Profiles = fmupd ''default'' ''pe_k'' fmempty\<rparr>
   \<and> GetStoredAPIKey plain_sys []
        (snd (snd (Login three_polls plain_sys ''default'' [] [] switched_to_work)))
       = Inl (ErrorString (''no API key found for profile '' @ [CHR 0x22] @ ''work'' @ [CHR 0x22]))"
  by (simp add: Login_def three_polls_def scripted_session_def pollForCompletion_def
      poll_body_def on_tick_def StoreAPIKey_def ensureStore_def initialized_def Errorf_w_def
      switched_to_work_def GetActiveProfile_def saveStore_def configDir_def plain_sys_def
      readonly_sys_def GetStoredAPIKey_def credentialsPath_def Let_def)

text \<open>
  Claim C5, amended. Let the credential store be initialized and the credentials file
  be writable (the home directory is known; creating the directory, encoding and
  writing do not fail). If the session starts and the poll loop receives the responses
  pending, pending, completed with apiKey \<open>k\<close>, then Login returns \<open>k\<close> after exactly 3
  polls, and when it returns \<open>k\<close> is stored, in memory and in the credentials file,
  under the profile passed to Login ("default" for the empty name).
\<close>

theorem Login_three_polls:
  fixes w sys profile operatorID keyTitle a st home loginResp p1 p2 p3 k post
  defines "name \<equiv> (if profile = [] then ''default'' else profile)"
  defines "st' \<equiv> st\<lparr>Profiles := fmupd name k (Profiles st)\<rparr>"
  assumes init: "store a = Some st"
    and writable: "UserHomeDir sys = Inr home"
      "MkdirAll sys (Join sys [home, ''.config'', ''porteden'']) = None"
      "MarshalIndentErr sys = None" "WriteFile sys (credentialsPath sys home) = None"
    and started: "MarshalErr w = None" "NewRequestErr w = None"
      "Initiate w (reqBody operatorID keyTitle) = Got 200 (Decoded loginResp)"
    and delay: "First w (poll_timeout (ExpiresAt loginResp) (Clock w)) (10 * Second) = Other ()"
    and polls: "Wakes w (pollURL w (SessionToken loginResp) (PollSecret loginResp))
                  (poll_timeout (ExpiresAt loginResp) (Clock w)) (10 * Second) (3 * Second)
                = Other (Got 200 (Decoded p1)) # Other (Got 200 (Decoded p2))
                    # Other (Got 200 (Decoded p3)) # post"
    and bodies: "Status p1 = ''pending''" "Status p2 = ''pending''"
      "Status p3 = ''completed''" "ApiKey p3 = Some k"
  shows "Login w sys profile operatorID keyTitle a =
           (Some (Inr k), 3,
            a\<lparr>store := Some st',
              files := (files a)(credentialsPath sys home \<mapsto> encode (Some st'))\<rparr>)
         \<and> fmlookup (Profiles st') name = Some k"
proof -
  have "pollForCompletion w (SessionToken loginResp) (PollSecret loginResp) (ExpiresAt loginResp)
          = (Some (Inr k), 3)"
    using delay polls bodies
    by (simp add: pollForCompletion_def on_tick_pending) (simp add: on_tick_def)
  from Login_poll_key[OF started this, of sys profile a]
  have login: "Login w sys profile operatorID keyTitle a =
     (case StoreAPIKey sys k name a of
        (Some err, a') \<Rightarrow> (Some (Inl (Errorf_w ''failed to store API key: '' (Some err))), 3, a')
      | (None, a') \<Rightarrow> (Some (Inr k), 3, a'))"
    by (simp add: name_def)
  have named: "name \<noteq> []" by (simp add: name_def)
  show ?thesis
    using login StoreAPIKey_ok[OF init writable named, of k]
    by (simp add: st'_def)
qed

theorem Login_three_polls_witness:
  "store initialized = Some \<lparr>ActiveProfile = ''default'', Profiles = fmempty\<rparr>
   \<and> fst (Login three_polls plain_sys ''work'' [] ''laptop'' initialized) = Some (Inr ''pe_k'')
   \<and> fst (snd (Login three_polls plain_sys ''work'' [] ''laptop'' initialized)) = 3
   \<and> store (snd (snd (Login three_polls plain_sys ''work'' [] ''laptop'' initialized)))
       = Some \<lparr>ActiveProfile = ''default'', Profiles = fmupd ''work'' ''pe_k'' fmempty\<rparr>
   \<and> files (snd (snd (Login three_polls plain_sys ''work'' [] ''laptop'' initialized)))
        ''/home/u/.config/porteden/credentials.json''
       = Some (Json ''default'' (Some (fmupd ''work'' ''pe_k'' fmempty)))"
proof -
  let ?st = "\<lparr>ActiveProfile = ''default'', Profiles = fmempty\<rparr>"
  let ?resp = "\<lparr>SessionToken = ''tok'', PollSecret = ''sec'',
          LoginURL = ''https://login.example.test/tok'', ExpiresAt = 300 * Second,
          Message = []\<rparr>"
  have init: "store initialized = Some ?st"
    by (simp add: initialized_def)
  have path: "credentialsPath plain_sys ''/home/u'' = ''/home/u/.config/porteden/credentials.json''"
    by (simp add: credentialsPath_def plain_sys_def credentialsFile_def)
  from Login_three_polls[where a = initialized and st = ?st and sys = plain_sys
      and home = "''/home/u''" and w = three_polls and operatorID = "[]"
      and keyTitle = "''laptop''" and loginResp = ?resp
      and ?p1.0 = "\<lparr>Status = ''pending'', ApiKey = None, Error = None\<rparr>"
      and ?p2.0 = "\<lparr>Status = ''pending'', ApiKey = None, Error = None\<rparr>"
      and ?p3.0 = "\<lparr>Status = ''completed'', ApiKey = Some ''pe_k'', Error = None\<rparr>"
      and post = "[]" and k = "''pe_k''" and profile = "''work''"]
  have "Login three_polls plain_sys ''work'' [] ''laptop'' initialized =
           (Some (Inr ''pe_k''), 3,
            initialized\<lparr>store := Some (?st\<lparr>Profiles := fmupd ''work'' ''pe_k'' (Profiles ?st)\<rparr>),
              files := (files initialized)(credentialsPath plain_sys ''/home/u''
                 \<mapsto> encode (Some (?st\<lparr>Profiles := fmupd ''work'' ''pe_k'' (Profiles ?st)\<rparr>)))\<rparr>)"
    by (simp add: initialized_def plain_sys_def three_polls_def scripted_session_def
        poll_body_def credentialsPath_def)
  then show ?thesis
    using init path by (simp add: encode_def)
qed

subsection \<open>HTTP 404 on a poll\<close>

text \<open>
  Claim C6, as stated, fails: the source tests the error of reading the body before it
  looks at the status code. A poll answered with status 404 whose body cannot be read
  is treated as a failed poll; the loop polls again, and here the next poll completes
  the login.
\<close>

theorem pollForCompletion_404_counterexample:
  "pollForCompletion truncated_404 ''tok'' ''sec'' (300 * Second) = (Some (Inr ''pe_k''), 2)"
  by (simp add: pollForCompletion_def truncated_404_def scripted_session_def poll_body_def
      on_tick_def)

text \<open>
  Claim C6, amended. Whenever a poll is answered with HTTP 404 and the body of the
  response is read without error, at any iteration of the poll loop (after any number
  of polls that left the flow polling), pollForCompletion returns the error "login
  session expired. Please try again" with that poll as its last, whatever the expiry
  time, the clock and the timeout are.
\<close>

theorem pollForCompletion_404:
  assumes "First w (poll_timeout expiresAt (Clock w)) (10 * Second) = Other u"
    and "Wakes w (pollURL w sessionToken pollSecret) (poll_timeout expiresAt (Clock w))
           (10 * Second) (3 * Second) = pre @ Other (Got 404 b) # post"
    and "keeps_polling pre"
    and "\<forall>e. b \<noteq> ReadError e"
  shows "pollForCompletion w sessionToken pollSecret expiresAt
           = (Some (Inl (ErrorString ''login session expired. Please try again'')),
              Suc (length pre))"
  using assms by (simp add: pollForCompletion_def poll_loop_terminal on_tick_404)

theorem pollForCompletion_404_witness:
  "keeps_polling [poll_body ''pending'' None None, Other (Failed (LibError ''timeout''))]
   \<and> pollForCompletion gone_on_third ''tok'' ''sec'' 0
       = (Some (Inl (ErrorString ''login session expired. Please try again'')), 3)"
proof -
  let ?pre = "[poll_body ''pending'' None None, Other (Failed (LibError ''timeout''))]"
  have k: "keeps_polling ?pre"
    by (simp add: poll_body_def on_tick_def)
  have f: "First gone_on_third (poll_timeout 0 (Clock gone_on_third)) (10 * Second) = Other ()"
    by (simp add: gone_on_third_def scripted_session_def)
  have s: "Wakes gone_on_third (pollURL gone_on_third ''tok'' ''sec'')
             (poll_timeout 0 (Clock gone_on_third)) (10 * Second) (3 * Second)
           = ?pre @ Other (Got 404 (Malformed (LibError ''invalid character'')))
               # [poll_body ''completed'' (Some ''pe_k'') None]"
    by (simp add: gone_on_third_def scripted_session_def)
  have b: "\<forall>e. Malformed (LibError ''invalid character'') \<noteq> (ReadError e :: PollResponse body)"
    by simp
  from pollForCompletion_404[OF f s k b] k show ?thesis by simp
qed

subsection \<open>The overall timeout\<close>

lemma select_at_timer:
  "select_at pick now cancel timer third = (wake, TimerC) \<Longrightarrow> timer \<le> wake"
  by (auto simp: select_at_def Let_def split: if_splits option.splits)

lemma timed_loop_timer:
  "\<lparr>what = TimerC, woke = at, over = at'\<rparr>
     \<in> set (timed_loop pick cancel timer period n now tick as) \<Longrightarrow> timer \<le> at"
proof (induction as arbitrary: n now tick)
  case Nil
  obtain wake ch where s: "select_at (pick n) now cancel timer tick = (wake, ch)"
    by (cases "select_at (pick n) now cancel timer tick")
  with Nil select_at_timer[of "pick n" now cancel timer tick wake] show ?case
    by (cases ch) (simp_all split: if_splits)
next
  case (Cons a as)
  obtain d x where a: "a = (d, x)" by (cases a)
  obtain wake ch where s: "select_at (pick n) now cancel timer tick = (wake, ch)"
    by (cases "select_at (pick n) now cancel timer tick")
  show ?case
  proof (cases ch)
    case CtxDone
    with Cons.prems a s show ?thesis by simp
  next
    case TimerC
    with Cons.prems a s select_at_timer[of "pick n" now cancel timer tick wake]
    show ?thesis by simp
  next
    case (Other u)
    with Cons.prems a s
    have "\<lparr>what = TimerC, woke = at, over = at'\<rparr>
            \<in> set (timed_loop pick cancel timer period (Suc n) (wake + d)
                      (next_tick tick period wake) as)"
      by simp
    then show ?thesis by (rule Cons.IH)
  qed
qed

text \<open>The selects on a timeline where nobody cancels and the server is quick.\<close>

lemma select_at_timer_first:
  "now < third \<Longrightarrow> timer < third \<Longrightarrow>
   select_at pick now None timer third = (max now timer, TimerC)"
  by (auto simp: select_at_def Let_def max_def min_def)

lemma select_at_third_first:
  "now \<le> third \<Longrightarrow> third < timer \<Longrightarrow>
   select_at pick now None timer third = (third, Other ())"
  by (auto simp: select_at_def Let_def max_def min_def)

lemma select_at_tie:
  "now \<le> timer \<Longrightarrow>
   select_at pick now None timer timer = (timer, TimerC) \<or>
   select_at pick now None timer timer = (timer, Other ())"
  by (auto simp: select_at_def Let_def max_def min_def)

lemma next_tick_on_time: "0 < period \<Longrightarrow> next_tick tick period tick = tick + period"
  by (simp add: next_tick_def)

lemma timed_loop_quick:
  assumes "0 < period" "quick period as"
    and "now < tick" "now < timer + period"
    and "timer - tick < int (length as) * period"
  shows "\<exists>ticks at.
           timed_loop pick None timer period n now tick as
             = ticks @ [\<lparr>what = TimerC, woke = at, over = at\<rparr>]
           \<and> keeps_polling (map what ticks)
           \<and> (\<forall>t \<in> set ticks. woke t \<le> timer)
           \<and> timer \<le> at \<and> at < timer + period"
  using assms(2-)
proof (induction as arbitrary: n now tick)
  case Nil
  then have "timer < tick" by simp
  from select_at_timer_first[OF Nil.prems(2) this, of "pick n"] Nil.prems assms(1)
  show ?case by (auto simp: max_def)
next
  case (Cons a as)
  obtain d x where a: "a = (d, x)" by (cases a)
  from Cons.prems(1) a have d: "0 \<le> d" "d < period" "on_tick x = None" and q: "quick period as"
    by (auto simp: quick_def)
  have timer_case: ?case if s: "select_at (pick n) now None timer tick = (wake, TimerC)" and w: "timer \<le> wake" "wake < timer + period" for wake
    using s w a by (intro exI[of _ "[]"] exI[of _ wake]) simp
  have tick_case: ?case if s: "select_at (pick n) now None timer tick = (tick, Other ())" and le: "tick \<le> timer"
  proof -
    have "tick + d < tick + period" using d by simp
    moreover have "tick + d < timer + period" using d le by simp
    moreover have "timer - (tick + period) < int (length as) * period"
      using Cons.prems(4) by (simp add: algebra_simps)
    ultimately obtain ticks at where
      ih: "timed_loop pick None timer period (Suc n) (tick + d) (tick + period) as
             = ticks @ [\<lparr>what = TimerC, woke = at, over = at\<rparr>]"
          "keeps_polling (map what ticks)" "\<forall>t \<in> set ticks. woke t \<le> timer"
          "timer \<le> at" "at < timer + period"
      using Cons.IH[OF q, of "tick + d" "tick + period" "Suc n"] by blast
    show ?thesis
      using s a ih d le assms(1)
      by (intro exI[of _ "\<lparr>what = Other x, woke = tick, over = tick + d\<rparr> # ticks"] exI[of _ at])
         (simp add: next_tick_on_time)
  qed
  consider "timer < tick" | "tick < timer" | "tick = timer" by linarith
  then show ?case
  proof cases
    case 1
    show ?thesis
      by (rule timer_case[of "max now timer"])
         (use select_at_timer_first[OF Cons.prems(2) 1, of "pick n"] Cons.prems(3) assms(1)
          in \<open>auto simp: max_def\<close>)
  next
    case 2
    show ?thesis
      by (rule tick_case)
         (use select_at_third_first[OF _ 2, of now "pick n"] Cons.prems(2) 2 in auto)
  next
    case 3
    from select_at_tie[of now timer "pick n"] Cons.prems(2) 3
    consider "select_at (pick n) now None timer tick = (timer, TimerC)"
      | "select_at (pick n) now None timer tick = (tick, Other ())" by auto
    then show ?thesis
    proof cases
      case 1
      show ?thesis
        by (rule timer_case[of timer]) (use 1 assms(1) in auto)
    next
      case 2
      show ?thesis
        by (rule tick_case) (use 2 3 in auto)
    qed
  qed
qed


lemma timed_selects_quick:
  assumes "cancelled tline = None" "0 < period" "0 \<le> delay" "delay < timeout"
    and "quick period (answers tline)"
    and "timeout \<le> int (length (answers tline)) * period"
  shows "\<exists>ticks at.
           timed_selects tline timeout delay period
             = ticks @ [\<lparr>what = TimerC, woke = at, over = at\<rparr>]
           \<and> keeps_polling (map what ticks)
           \<and> (\<forall>t \<in> set ticks. woke t \<le> started tline + timeout)
           \<and> started tline + timeout \<le> at \<and> at < started tline + timeout + period"
proof -
  have first: "select_at (choice tline 0) (started tline) None (started tline + timeout)
                 (started tline + delay) = (started tline + delay, Other ())"
    using assms(3,4) by (intro select_at_third_first) simp_all
  have "started tline + timeout - (started tline + delay + period)
          < int (length (answers tline)) * period"
    using assms(2,3,6) by simp
  from timed_loop_quick[OF assms(2,5) _ _ this, of "started tline + delay" "choice tline" 1]
    assms(2,4)
  show ?thesis
    by (simp add: timed_selects_def assms(1) first Let_def)
qed

lemma First_timed:
  "cancelled tline = None \<Longrightarrow> 0 \<le> delay \<Longrightarrow> delay < timeout \<Longrightarrow>
   First (timed_session tline) timeout delay = Other ()"
  by (simp add: timed_session_def select_at_third_first)

lemma poll_timeout_floor: "90 * Second \<le> poll_timeout expiresAt now"
  by (simp add: poll_timeout_def Let_def)

lemma pollForCompletion_quick:
  assumes "cancelled tline = None" "quick (3 * Second) (answers tline)"
    and "poll_timeout expiresAt (started tline) \<le> int (length (answers tline)) * (3 * Second)"
  shows "\<exists>ticks at.
           timed_selects tline (poll_timeout expiresAt (started tline)) (10 * Second) (3 * Second)
             = ticks @ [\<lparr>what = TimerC, woke = at, over = at\<rparr>]
           \<and> (\<forall>t \<in> set ticks. woke t \<le> started tline + poll_timeout expiresAt (started tline))
           \<and> started tline + poll_timeout expiresAt (started tline) \<le> at
           \<and> at < started tline + poll_timeout expiresAt (started tline) + 3 * Second
           \<and> pollForCompletion (timed_session tline) sessionToken pollSecret expiresAt
               = (Some (Inl (ErrorString ''login timed out'')), length ticks)"
proof -
  let ?t = "poll_timeout expiresAt (started tline)"
  have d: "(0::int) \<le> 10 * Second" "10 * Second < ?t" "(0::int) < 3 * Second"
    using poll_timeout_floor[of expiresAt "started tline"] by (simp_all add: Second_def)
  from timed_selects_quick[OF assms(1) d(3,1,2) assms(2,3)] obtain ticks at where
    s: "timed_selects tline ?t (10 * Second) (3 * Second)
          = ticks @ [\<lparr>what = TimerC, woke = at, over = at\<rparr>]"
      "keeps_polling (map what ticks)"
      "\<forall>t \<in> set ticks. woke t \<le> started tline + ?t"
      "started tline + ?t \<le> at" "at < started tline + ?t + 3 * Second"
    by blast
  have c: "Clock (timed_session tline) = started tline"
    by (simp add: timed_session_def)
  have w: "Wakes (timed_session tline) url ?t (10 * Second) (3 * Second)
             = map what ticks @ TimerC # []" for url
    by (simp add: timed_session_def s(1))
  have "pollForCompletion (timed_session tline) sessionToken pollSecret expiresAt
          = (Some (Inl (ErrorString ''login timed out'')), length ticks)"
    using First_timed[OF assms(1) d(1,2)] poll_loop_timer[OF s(2), of "[]"]
    by (simp add: pollForCompletion_def c w)
  with s show ?thesis by blast
qed

text \<open>
  Claim C7, as stated, fails: the flow looks at the overall timer only in its selects,
  and \<open>httpClient.Get\<close> is not one. On the timeline \<open>late_answer\<close> the window is 90
  seconds; the first 25 polls are answered pending, the last of them at 86 s; the 26th
  poll, sent at 88 s, is in flight when the window ends and is answered at 91 s with
  the key. No terminal response has arrived within the window, and the flow returns
  the key, not "login timed out".
\<close>

theorem pollForCompletion_timeout_counterexample:
  "poll_timeout (60 * Second) (started late_answer) = 90 * Second
   \<and> keeps_polling
        (map what (take 25 (timed_selects late_answer (90 * Second) (10 * Second) (3 * Second))))
   \<and> timed_selects late_answer (90 * Second) (10 * Second) (3 * Second) ! 24
       = \<lparr>what = Other pending, woke = 85 * Second, over = 86 * Second\<rparr>
   \<and> timed_selects late_answer (90 * Second) (10 * Second) (3 * Second) ! 25
       = \<lparr>what = poll_body ''completed'' (Some ''pe_k'') None, woke = 88 * Second,
          over = 91 * Second\<rparr>
   \<and> pollForCompletion (timed_session late_answer) ''tok'' ''sec'' (60 * Second)
       = (Some (Inr ''pe_k''), 26)"
  by code_simp

text \<open>
  Claim C7, amended. The overall timer of the poll loop is set to the larger of the
  time until the server-declared \<open>expiresAt\<close> and 90 seconds, read off the clock when
  pollForCompletion starts, and on no timeline does a select receive from it before
  that time has passed. When a select of the flow receives from it, be it during the
  initial 10 s delay or in the loop after any number of polls that left the flow
  polling, pollForCompletion returns the error "login timed out" and makes no further
  poll. On every timeline without cancellation where the server answers each poll in
  less than the 3 s between ticks, with a response that leaves the flow polling, this
  happens when the window ends or less than 3 s later, and no poll is sent after the
  end of the window. (The timer is looked at in the selects only: a poll in flight when
  it fires is completed first and its response is acted upon.)
\<close>

theorem pollForCompletion_timeout:
  "poll_timeout expiresAt (Clock w) = max (time_Until expiresAt (Clock w)) (90 * Second)
   \<and> (First w (poll_timeout expiresAt (Clock w)) (10 * Second) = TimerC \<longrightarrow>
        pollForCompletion w sessionToken pollSecret expiresAt
          = (Some (Inl (ErrorString ''login timed out'')), 0))
   \<and> (First w (poll_timeout expiresAt (Clock w)) (10 * Second) = Other u
        \<and> Wakes w (pollURL w sessionToken pollSecret) (poll_timeout expiresAt (Clock w))
            (10 * Second) (3 * Second) = pre @ TimerC # post
        \<and> keeps_polling pre \<longrightarrow>
        pollForCompletion w sessionToken pollSecret expiresAt
          = (Some (Inl (ErrorString ''login timed out'')), length pre))
   \<and> (\<lparr>what = TimerC, woke = at, over = at'\<rparr>
          \<in> set (timed_selects tline (poll_timeout expiresAt (started tline)) delay period) \<longrightarrow>
        started tline + max (time_Until expiresAt (started tline)) (90 * Second) \<le> at)
   \<and> (cancelled tline = None \<and> quick (3 * Second) (answers tline)
        \<and> poll_timeout expiresAt (started tline) \<le> int (length (answers tline)) * (3 * Second)
        \<longrightarrow>
        (\<exists>ticks fin.
           timed_selects tline (poll_timeout expiresAt (started tline)) (10 * Second) (3 * Second)
             = ticks @ [\<lparr>what = TimerC, woke = fin, over = fin\<rparr>]
           \<and> (\<forall>t \<in> set ticks. woke t \<le> started tline + poll_timeout expiresAt (started tline))
           \<and> started tline + poll_timeout expiresAt (started tline) \<le> fin
           \<and> fin < started tline + poll_timeout expiresAt (started tline) + 3 * Second
           \<and> pollForCompletion (timed_session tline) sessionToken pollSecret expiresAt
               = (Some (Inl (ErrorString ''login timed out'')), length ticks)))"
proof (intro conjI impI)
  show "poll_timeout expiresAt (Clock w) = max (time_Until expiresAt (Clock w)) (90 * Second)"
    by (simp add: poll_timeout_def Let_def)
  show "pollForCompletion w sessionToken pollSecret expiresAt
          = (Some (Inl (ErrorString ''login timed out'')), 0)"
    if "First w (poll_timeout expiresAt (Clock w)) (10 * Second) = TimerC"
    using that by (simp add: pollForCompletion_def)
  show "pollForCompletion w sessionToken pollSecret expiresAt
          = (Some (Inl (ErrorString ''login timed out'')), length pre)"
    if "First w (poll_timeout expiresAt (Clock w)) (10 * Second) = Other u
        \<and> Wakes w (pollURL w sessionToken pollSecret) (poll_timeout expiresAt (Clock w))
            (10 * Second) (3 * Second) = pre @ TimerC # post
        \<and> keeps_polling pre"
    using that by (simp add: pollForCompletion_def poll_loop_timer)
  show "started tline + max (time_Until expiresAt (started tline)) (90 * Second) \<le> at"
    if "\<lparr>what = TimerC, woke = at, over = at'\<rparr>
          \<in> set (timed_selects tline (poll_timeout expiresAt (started tline)) delay period)"
  proof -
    from that have "started tline + poll_timeout expiresAt (started tline) \<le> at"
      unfolding timed_selects_def Let_def by (rule timed_loop_timer)
    then show ?thesis by (auto simp: poll_timeout_def Let_def max_def split: if_splits)
  qed
  show "\<exists>ticks fin.
           timed_selects tline (poll_timeout expiresAt (started tline)) (10 * Second) (3 * Second)
             = ticks @ [\<lparr>what = TimerC, woke = fin, over = fin\<rparr>]
           \<and> (\<forall>t \<in> set ticks. woke t \<le> started tline + poll_timeout expiresAt (started tline))
           \<and> started tline + poll_timeout expiresAt (started tline) \<le> fin
           \<and> fin < started tline + poll_timeout expiresAt (started tline) + 3 * Second
           \<and> pollForCompletion (timed_session tline) sessionToken pollSecret expiresAt
               = (Some (Inl (ErrorString ''login timed out'')), length ticks)"
    if "cancelled tline = None \<and> quick (3 * Second) (answers tline)
        \<and> poll_timeout expiresAt (started tline) \<le> int (length (answers tline)) * (3 * Second)"
    using that pollForCompletion_quick[of tline expiresAt sessionToken pollSecret] by blast
qed

theorem pollForCompletion_timeout_witness:
  "poll_timeout (300 * Second) 0 = 300 * Second
   \<and> poll_timeout (60 * Second) 0 = 90 * Second
   \<and> pollForCompletion expired_at_once ''tok'' ''sec'' (60 * Second)
       = (Some (Inl (ErrorString ''login timed out'')), 0)
   \<and> pollForCompletion never_completed ''tok'' ''sec'' (300 * Second)
       = (Some (Inl (ErrorString ''login timed out'')), 2)
   \<and> \<lparr>what = TimerC, woke = 100 * Second, over = 100 * Second\<rparr>
        \<in> set (timed_selects no_answer (poll_timeout (60 * Second) (started no_answer))
                 (10 * Second) (3 * Second))
   \<and> started no_answer + 90 * Second \<le> 100 * Second
   \<and> cancelled quick_pending = None
   \<and> quick (3 * Second) (answers quick_pending)
   \<and> poll_timeout (60 * Second) (started quick_pending)
        \<le> int (length (answers quick_pending)) * (3 * Second)
   \<and> (\<exists>ticks fin.
         timed_selects quick_pending (90 * Second) (10 * Second) (3 * Second)
           = ticks @ [\<lparr>what = TimerC, woke = fin, over = fin\<rparr>]
         \<and> (\<forall>t \<in> set ticks. woke t \<le> 90 * Second)
         \<and> 90 * Second \<le> fin \<and> fin < 93 * Second
         \<and> pollForCompletion (timed_session quick_pending) ''tok'' ''sec'' (60 * Second)
             = (Some (Inl (ErrorString ''login timed out'')), length ticks))"
proof -
  let ?pre = "[poll_body ''pending'' None None,
               Other (Got 503 (Decoded \<lparr>Status = [], ApiKey = None, Error = None\<rparr>))]"
  have c: "Clock expired_at_once = 0" "Clock never_completed = 0" "started no_answer = 0"
    "started quick_pending = 0"
    by (simp_all add: expired_at_once_def never_completed_def scripted_session_def no_answer_def
        quick_pending_def)
  have u: "time_Until (300 * Second) 0 = 300 * Second" "time_Until (60 * Second) 0 = 60 * Second"
    by (simp_all add: time_Until_def Second_def)
  have p: "poll_timeout (60 * Second) 0 = 90 * Second" "poll_timeout (300 * Second) 0 = 300 * Second"
    by (simp_all add: poll_timeout_def u) (simp_all add: Second_def)
  have f0: "First expired_at_once (poll_timeout (60 * Second) (Clock expired_at_once))
              (10 * Second) = TimerC"
    by (simp add: expired_at_once_def scripted_session_def)
  have f: "First never_completed (poll_timeout (300 * Second) (Clock never_completed))
             (10 * Second) = Other ()"
    by (simp add: never_completed_def scripted_session_def)
  have s: "Wakes never_completed (pollURL never_completed ''tok'' ''sec'')
             (poll_timeout (300 * Second) (Clock never_completed)) (10 * Second) (3 * Second)
           = ?pre @ TimerC # [poll_body ''completed'' (Some ''pe_k'') None]"
    by (simp add: never_completed_def scripted_session_def)
  have k: "keeps_polling ?pre"
    by (simp add: poll_body_def on_tick_def)
  have m: "\<lparr>what = TimerC, woke = 100 * Second, over = 100 * Second\<rparr>
        \<in> set (timed_selects no_answer (poll_timeout (60 * Second) (started no_answer))
                 (10 * Second) (3 * Second))"
    by code_simp
  have q: "cancelled quick_pending = None" "quick (3 * Second) (answers quick_pending)"
    "length (answers quick_pending) = 40"
    by (simp_all add: quick_pending_def quick_def pending_def on_tick_def Second_def)
  have e: "poll_timeout (60 * Second) (started quick_pending)
        \<le> int (length (answers quick_pending)) * (3 * Second)"
    by (simp add: c p q) (simp add: Second_def)
  note loop = pollForCompletion_timeout[where expiresAt = "300 * Second"
      and w = never_completed and u = "()" and sessionToken = "''tok''"
      and pollSecret = "''sec''" and pre = ?pre
      and post = "[poll_body ''completed'' (Some ''pe_k'') None]",
      THEN conjunct2, THEN conjunct2, THEN conjunct1, rule_format]
  have r1: "pollForCompletion never_completed ''tok'' ''sec'' (300 * Second)
       = (Some (Inl (ErrorString ''login timed out'')), 2)"
    using loop[OF conjI[OF f conjI[OF s k]]] by simp
  note first = pollForCompletion_timeout[where expiresAt = "60 * Second"
      and w = expired_at_once and sessionToken = "''tok''" and pollSecret = "''sec''",
      THEN conjunct2, THEN conjunct1, rule_format]
  have r2: "pollForCompletion expired_at_once ''tok'' ''sec'' (60 * Second)
       = (Some (Inl (ErrorString ''login timed out'')), 0)"
    using first[OF f0] .
  note early = pollForCompletion_timeout[where expiresAt = "60 * Second" and tline = no_answer
      and at = "100 * Second" and at' = "100 * Second" and delay = "10 * Second"
      and period = "3 * Second",
      THEN conjunct2, THEN conjunct2, THEN conjunct2, THEN conjunct1, rule_format]
  have r3: "started no_answer + 90 * Second \<le> 100 * Second"
    using early[OF m] by (simp add: c u)
  note quickly = pollForCompletion_timeout[where expiresAt = "60 * Second"
      and tline = quick_pending and sessionToken = "''tok''" and pollSecret = "''sec''",
      THEN conjunct2, THEN conjunct2, THEN conjunct2, THEN conjunct2, rule_format]
  have r4: "\<exists>ticks fin.
         timed_selects quick_pending (90 * Second) (10 * Second) (3 * Second)
           = ticks @ [\<lparr>what = TimerC, woke = fin, over = fin\<rparr>]
         \<and> (\<forall>t \<in> set ticks. woke t \<le> 90 * Second)
         \<and> 90 * Second \<le> fin \<and> fin < 93 * Second
         \<and> pollForCompletion (timed_session quick_pending) ''tok'' ''sec'' (60 * Second)
             = (Some (Inl (ErrorString ''login timed out'')), length ticks)"
    using quickly[OF conjI[OF q(1) conjI[OF q(2) e]]] by (simp add: c p)
  from p r1 r2 r3 m q(1,2) e r4 show ?thesis
    by (intro conjI)
qed

subsection \<open>The statuses invalid_secret and failed\<close>

text \<open>
  Claim C8, as stated, fails: both errors are plain string errors (\<open>fmt.Errorf\<close> without
  \<open>%w\<close> and \<open>errors.New\<close> build the same kind of value), told apart by their text alone,
  and the text for \<open>failed\<close> is the server's. A \<open>failed\<close> response whose error field is the
  text of the invalid-secret error gives the very same error, from the poll loop and
  from Login.
\<close>

theorem invalid_secret_counterexample:
  "on_tick (Got 200 (Decoded \<lparr>Status = ''invalid_secret'', ApiKey = None, Error = None\<rparr>))
   = on_tick (Got 200 (Decoded \<lparr>Status = ''failed'', ApiKey = None,
        Error = Some ''invalid poll secret - session may be compromised''\<rparr>))
   \<and> pollForCompletion secret_rejected ''tok'' ''sec'' (300 * Second)
       = (Some (Inl (ErrorString ''invalid poll secret - session may be compromised'')), 2)
   \<and> pollForCompletion failed_like_secret ''tok'' ''sec'' (300 * Second)
       = pollForCompletion secret_rejected ''tok'' ''sec'' (300 * Second)
   \<and> Login failed_like_secret plain_sys ''work'' [] [] initialized
       = Login secret_rejected plain_sys ''work'' [] [] initialized"
  by (simp add: on_tick_def pollForCompletion_def Login_def secret_rejected_def
      failed_like_secret_def scripted_session_def poll_body_def)

text \<open>
  Claim C8, amended. When a poll is answered with HTTP 200 and a body whose status is
  \<open>invalid_secret\<close>, at any iteration of the poll loop, the login flow ends there:
  pollForCompletion and Login return the string error "invalid poll secret - session
  may be compromised", no further poll is made and the credential store is left as it
  was. When the status is \<open>failed\<close> the flow ends the same way with the string error
  whose text is the error field of the response, or "authentication failed" without
  one. The two errors are of the same kind: the error for \<open>failed\<close> is the error for
  \<open>invalid_secret\<close> exactly when the server's text is the text of that error.
\<close>

theorem invalid_secret_and_failed:
  fixes w sys profile operatorID keyTitle a loginResp pre r post u
  defines "polled \<equiv>
    pollForCompletion w (SessionToken loginResp) (PollSecret loginResp) (ExpiresAt loginResp)"
  defines "secret_error \<equiv> ErrorString ''invalid poll secret - session may be compromised''"
  assumes started: "MarshalErr w = None" "NewRequestErr w = None"
      "Initiate w (reqBody operatorID keyTitle) = Got 200 (Decoded loginResp)"
    and delay: "First w (poll_timeout (ExpiresAt loginResp) (Clock w)) (10 * Second) = Other u"
    and polls: "Wakes w (pollURL w (SessionToken loginResp) (PollSecret loginResp))
                  (poll_timeout (ExpiresAt loginResp) (Clock w)) (10 * Second) (3 * Second)
                = pre @ Other (Got 200 (Decoded r)) # post"
    and waiting: "keeps_polling pre"
  shows "(Status r = ''invalid_secret'' \<longrightarrow>
            polled = (Some (Inl secret_error), Suc (length pre))
          \<and> Login w sys profile operatorID keyTitle a
              = (Some (Inl secret_error), Suc (length pre), a))
     \<and> (Status r = ''failed'' \<longrightarrow>
            polled = (Some (Inl (ErrorString
                        (case Error r of Some msg \<Rightarrow> msg | None \<Rightarrow> ''authentication failed''))),
                      Suc (length pre))
          \<and> Login w sys profile operatorID keyTitle a
              = (Some (Inl (ErrorString
                   (case Error r of Some msg \<Rightarrow> msg | None \<Rightarrow> ''authentication failed''))),
                 Suc (length pre), a)
          \<and> (fst (Login w sys profile operatorID keyTitle a) = Some (Inl secret_error)
               \<longleftrightarrow> Error r = Some ''invalid poll secret - session may be compromised''))"
proof (intro conjI impI)
  assume s: "Status r = ''invalid_secret''"
  then have "on_tick (Got 200 (Decoded r)) = Some (Inl secret_error)"
    by (simp add: on_tick_def secret_error_def)
  with delay polls waiting
  show p: "polled = (Some (Inl secret_error), Suc (length pre))"
    by (simp add: polled_def pollForCompletion_def poll_loop_terminal)
  from Login_poll_error[OF started p[unfolded polled_def]]
  show "Login w sys profile operatorID keyTitle a
          = (Some (Inl secret_error), Suc (length pre), a)" .
next
  let ?failed = "ErrorString (case Error r of Some msg \<Rightarrow> msg | None \<Rightarrow> ''authentication failed'')"
  assume s: "Status r = ''failed''"
  then have "on_tick (Got 200 (Decoded r)) = Some (Inl ?failed)"
    by (simp add: on_tick_def)
  with delay polls waiting
  show p: "polled = (Some (Inl ?failed), Suc (length pre))"
    by (simp add: polled_def pollForCompletion_def poll_loop_terminal)
  from Login_poll_error[OF started p[unfolded polled_def]]
  show l: "Login w sys profile operatorID keyTitle a
          = (Some (Inl ?failed), Suc (length pre), a)" .
  show "fst (Login w sys profile operatorID keyTitle a) = Some (Inl secret_error)
          \<longleftrightarrow> Error r = Some ''invalid poll secret - session may be compromised''"
    unfolding l by (auto simp: secret_error_def split: option.splits)
qed

theorem invalid_secret_and_failed_witness:
  "keeps_polling [poll_body ''pending'' None None]
   \<and> Login secret_rejected plain_sys ''work'' [] [] initialized
       = (Some (Inl (ErrorString ''invalid poll secret - session may be compromised'')), 2,
          initialized)
   \<and> Login login_denied plain_sys ''work'' [] [] initialized
       = (Some (Inl (ErrorString ''denied'')), 2, initialized)
   \<and> fst (Login login_denied plain_sys ''work'' [] [] initialized)
       \<noteq> fst (Login secret_rejected plain_sys ''work'' [] [] initialized)"
proof -
  let ?resp = "\<lparr>SessionToken = ''tok'', PollSecret = ''sec'',
          LoginURL = ''https://login.example.test/tok'', ExpiresAt = 300 * Second,
          Message = []\<rparr>"
  let ?secret = "\<lparr>Status = ''invalid_secret'', ApiKey = None, Error = None\<rparr>"
  let ?denied = "\<lparr>Status = ''failed'', ApiKey = None, Error = Some ''denied''\<rparr>"
  let ?post = "[poll_body ''completed'' (Some ''pe_k'') None]"
  have k: "keeps_polling [poll_body ''pending'' None None]"
    by (simp add: poll_body_def on_tick_def)
  have i: "MarshalErr secret_rejected = None" "NewRequestErr secret_rejected = None"
    "Initiate secret_rejected (reqBody [] []) = Got 200 (Decoded ?resp)"
    by (simp_all add: secret_rejected_def scripted_session_def)
  have f: "First secret_rejected (poll_timeout (ExpiresAt ?resp) (Clock secret_rejected))
             (10 * Second) = Other ()"
    by (simp add: secret_rejected_def scripted_session_def)
  have s: "Wakes secret_rejected (pollURL secret_rejected (SessionToken ?resp) (PollSecret ?resp))
             (poll_timeout (ExpiresAt ?resp) (Clock secret_rejected)) (10 * Second) (3 * Second)
           = [poll_body ''pending'' None None] @ Other (Got 200 (Decoded ?secret)) # ?post"
    by (simp add: secret_rejected_def scripted_session_def poll_body_def)
  have i': "MarshalErr login_denied = None" "NewRequestErr login_denied = None"
    "Initiate login_denied (reqBody [] []) = Got 200 (Decoded ?resp)"
    by (simp_all add: login_denied_def scripted_session_def)
  have f': "First login_denied (poll_timeout (ExpiresAt ?resp) (Clock login_denied))
             (10 * Second) = Other ()"
    by (simp add: login_denied_def scripted_session_def)
  have s': "Wakes login_denied (pollURL login_denied (SessionToken ?resp) (PollSecret ?resp))
             (poll_timeout (ExpiresAt ?resp) (Clock login_denied)) (10 * Second) (3 * Second)
           = [poll_body ''pending'' None None] @ Other (Got 200 (Decoded ?denied)) # ?post"
    by (simp add: login_denied_def scripted_session_def poll_body_def)
  from invalid_secret_and_failed[OF i f s k, of plain_sys "''work''" initialized]
  have a: "Login secret_rejected plain_sys ''work'' [] [] initialized
       = (Some (Inl (ErrorString ''invalid poll secret - session may be compromised'')), 2,
          initialized)"
    by simp
  from invalid_secret_and_failed[OF i' f' s' k, of plain_sys "''work''" initialized]
  have b: "Login login_denied plain_sys ''work'' [] [] initialized
       = (Some (Inl (ErrorString ''denied'')), 2, initialized)"
    by simp
  from k a b show ?thesis by simp
qed

subsection \<open>Completed without a key\<close>

text \<open>
  Claim C10. If a poll is answered with HTTP 200 and a body that decodes to status
  \<open>completed\<close> with no apiKey, at any iteration of the poll loop, pollForCompletion
  returns the error "no API key in response" with that poll as its last (the response
  is not taken as pending), and Login returns that error without touching the
  credential store: no key is persisted.
\<close>

theorem completed_without_key:
  assumes "Status r = ''completed''" and "ApiKey r = None"
    and "MarshalErr w = None" and "NewRequestErr w = None"
    and "Initiate w (reqBody operatorID keyTitle) = Got 200 (Decoded loginResp)"
    and "First w (poll_timeout (ExpiresAt loginResp) (Clock w)) (10 * Second) = Other u"
    and "Wakes w (pollURL w (SessionToken loginResp) (PollSecret loginResp))
           (poll_timeout (ExpiresAt loginResp) (Clock w)) (10 * Second) (3 * Second)
           = pre @ Other (Got 200 (Decoded r)) # post"
    and "keeps_polling pre"
  shows "pollForCompletion w (SessionToken loginResp) (PollSecret loginResp) (ExpiresAt loginResp)
           = (Some (Inl (ErrorString ''no API key in response'')), Suc (length pre))
     \<and> Login w sys profile operatorID keyTitle a
           = (Some (Inl (ErrorString ''no API key in response'')), Suc (length pre), a)"
proof -
  have t: "on_tick (Got 200 (Decoded r)) = Some (Inl (ErrorString ''no API key in response''))"
    using assms(1,2) by (simp add: on_tick_def)
  have p: "pollForCompletion w (SessionToken loginResp) (PollSecret loginResp)
             (ExpiresAt loginResp)
           = (Some (Inl (ErrorString ''no API key in response'')), Suc (length pre))"
    using assms(6,7,8) t by (simp add: pollForCompletion_def poll_loop_terminal)
  from Login_poll_error[OF assms(3,4,5) p] p show ?thesis by simp
qed

theorem completed_without_key_witness:
  "keeps_polling [poll_body ''pending'' None None]
   \<and> Login keyless plain_sys ''work'' [] [] initialized
       = (Some (Inl (ErrorString ''no API key in response'')), 2, initialized)"
proof -
  let ?resp = "\<lparr>SessionToken = ''tok'', PollSecret = ''sec'',
          LoginURL = ''https://login.example.test/tok'', ExpiresAt = 300 * Second,
          Message = []\<rparr>"
  let ?r = "\<lparr>Status = ''completed'', ApiKey = None, Error = None\<rparr>"
  have k: "keeps_polling [poll_body ''pending'' None None]"
    by (simp add: poll_body_def on_tick_def)
  have i: "MarshalErr keyless = None" "NewRequestErr keyless = None"
    "Initiate keyless (reqBody [] []) = Got 200 (Decoded ?resp)"
    by (simp_all add: keyless_def scripted_session_def)
  have f: "First keyless (poll_timeout (ExpiresAt ?resp) (Clock keyless)) (10 * Second) = Other ()"
    by (simp add: keyless_def scripted_session_def)
  have s: "Wakes keyless (pollURL keyless (SessionToken ?resp) (PollSecret ?resp))
             (poll_timeout (ExpiresAt ?resp) (Clock keyless)) (10 * Second) (3 * Second)
           = [poll_body ''pending'' None None] @ Other (Got 200 (Decoded ?r))
               # [poll_body ''completed'' (Some ''pe_k'') None]"
    by (simp add: keyless_def scripted_session_def poll_body_def)
  have r: "Status ?r = ''completed''" "ApiKey ?r = None" by simp_all
  from completed_without_key[OF r i f s k, of plain_sys "''work''" initialized] k
  show ?thesis by simp
qed

end
